theory Spec2Isabelle
  imports Complex_Main
begin

section \<open>Overview\<close>

text \<open>
  A shallow embedding of the spreadsheet import of the inventory application
  (\<open>src/app/api/inventory/import/route.ts\<close>), of the create endpoint
  \<open>POST /api/inventory\<close> and the edit endpoint \<open>PUT /api/inventory/[id]\<close>, and of the
  item table they write.  The functions of JavaScript the routes call (\<open>toLowerCase\<close>,
  \<open>trim\<close>, \<open>parseInt\<close>, \<open>parseFloat\<close>, \<open>Number\<close>, \<open>String\<close>, \<open>new Date\<close>) are modelled
  first, then the rows of the sheet, the store, and the routes.
\<close>

section \<open>Strings and numbers of the host language\<close>

text \<open>
  The import route works on JavaScript strings and numbers.  A string is modelled as a
  list of 8-bit characters read as the code points U+0000 to U+00FF (Latin-1); text
  outside that range is not covered by the embedding.  \<open>toLowerCase\<close> maps the Latin-1
  capitals (A to Z, and U+00C0 to U+00DE without the multiplication sign U+00D7) to
  their small letters; \<open>trim\<close> strips the white space and line terminators of that
  range (tab, line feed, vertical tab, form feed, carriage return, space, no-break space).
\<close>

definition isUpper :: "char \<Rightarrow> bool" where
  "isUpper c = (let n = (of_char c :: nat)
                in (65 \<le> n \<and> n \<le> 90) \<or> (192 \<le> n \<and> n \<le> 222 \<and> n \<noteq> 215))"

definition lowerChar :: "char \<Rightarrow> char" where
  "lowerChar c = (if isUpper c then char_of ((of_char c :: nat) + 32) else c)"

definition toLowerCase :: "string \<Rightarrow> string" where
  "toLowerCase s = map lowerChar s"

definition isWhiteSpace :: "char \<Rightarrow> bool" where
  "isWhiteSpace c = ((of_char c :: nat) \<in> {9, 10, 11, 12, 13, 32, 160})"

definition trimStart :: "string \<Rightarrow> string" where
  "trimStart s = dropWhile isWhiteSpace s"

definition trim :: "string \<Rightarrow> string" where
  "trim s = rev (dropWhile isWhiteSpace (rev (dropWhile isWhiteSpace s)))"

text \<open>
  A JavaScript number is a double.  The embedding keeps the exact rational value a
  literal denotes (the double nearest to it is what the program holds), together with
  \<open>NaN\<close> and the two infinities, which \<open>parseFloat\<close> and \<open>Number\<close> can return.
\<close>

datatype number = NaN | PosInfinity | NegInfinity | Fin rat

text \<open>\<open>x || 0\<close> on a number: \<open>NaN\<close> and zero are falsy.\<close>

definition orZero :: "number \<Rightarrow> number" where
  "orZero x = (if x = NaN \<or> x = Fin 0 then Fin 0 else x)"

definition nonNegative :: "number \<Rightarrow> bool" where
  "nonNegative x = (case x of Fin q \<Rightarrow> 0 \<le> q | PosInfinity \<Rightarrow> True | _ \<Rightarrow> False)"

definition digitVal :: "char \<Rightarrow> nat option" where
  "digitVal c = (let n = (of_char c :: nat)
                 in if 48 \<le> n \<and> n \<le> 57 then Some (n - 48)
                    else if 97 \<le> n \<and> n \<le> 102 then Some (n - 87)
                    else if 65 \<le> n \<and> n \<le> 70 then Some (n - 55)
                    else None)"

definition isDigitIn :: "nat \<Rightarrow> char \<Rightarrow> bool" where
  "isDigitIn R c = (case digitVal c of Some d \<Rightarrow> d < R | None \<Rightarrow> False)"

definition digitNat :: "char \<Rightarrow> nat" where
  "digitNat c = (case digitVal c of Some d \<Rightarrow> d | None \<Rightarrow> 0)"

definition valueOf :: "nat \<Rightarrow> string \<Rightarrow> nat" where
  "valueOf R ds = foldl (\<lambda>acc c. acc * R + digitNat c) 0 ds"

text \<open>
  \<open>parseInt(s)\<close> without a radix: leading white space is skipped, an optional sign is
  read, a \<open>0x\<close> or \<open>0X\<close> prefix selects radix 16, and the longest run of digits is the
  value; no digit at all gives \<open>NaN\<close>.  The result \<open>-0\<close> is the number \<open>0\<close> here, which
  the program cannot tell apart (\<open>-0 || 0\<close> is \<open>0\<close>).
\<close>

definition parseInt :: "string \<Rightarrow> number" where
  "parseInt s =
     (let S = trimStart s;
          sgn = (if take 1 S = ''-'' then - 1 else (1 :: int));
          S1 = (if take 1 S = ''-'' \<or> take 1 S = ''+'' then drop 1 S else S);
          R = (if take 2 S1 = ''0x'' \<or> take 2 S1 = ''0X'' then 16 else 10);
          S2 = (if take 2 S1 = ''0x'' \<or> take 2 S1 = ''0X'' then drop 2 S1 else S1);
          Z = takeWhile (isDigitIn R) S2
      in if Z = [] then NaN else Fin (of_int (sgn * int (valueOf R Z))))"

text \<open>
  The grammar \<open>StrDecimalLiteral\<close> shared by \<open>parseFloat\<close> and \<open>Number\<close>: an optional
  sign, then \<open>Infinity\<close> or digits with an optional fraction and an optional exponent.
  The function returns the value of the longest prefix that is such a literal and the
  rest of the string, or \<open>None\<close> when no prefix is one.
\<close>

definition exponentPart :: "string \<Rightarrow> int \<times> string" where
  "exponentPart s =
     (if take 1 s = ''e'' \<or> take 1 s = ''E'' then
        (let r = drop 1 s;
             neg = (take 1 r = ''-'');
             r1 = (if take 1 r = ''-'' \<or> take 1 r = ''+'' then drop 1 r else r);
             ds = takeWhile (isDigitIn 10) r1
         in if ds = [] then (0, s)
            else ((if neg then - 1 else 1) * int (valueOf 10 ds), dropWhile (isDigitIn 10) r1))
      else (0, s))"

definition pow10 :: "int \<Rightarrow> rat" where
  "pow10 e = (if 0 \<le> e then 10 ^ nat e else 1 / 10 ^ nat (- e))"

definition strDecimalLiteral :: "string \<Rightarrow> (number \<times> string) option" where
  "strDecimalLiteral s =
     (let neg = (take 1 s = ''-'');
          u = (if take 1 s = ''-'' \<or> take 1 s = ''+'' then drop 1 s else s)
      in if take 8 u = ''Infinity'' then Some (if neg then NegInfinity else PosInfinity, drop 8 u)
         else
           (let ip = takeWhile (isDigitIn 10) u;
                r1 = dropWhile (isDigitIn 10) u;
                fp = (if take 1 r1 = ''.'' then takeWhile (isDigitIn 10) (drop 1 r1) else []);
                r2 = (if take 1 r1 = ''.'' then dropWhile (isDigitIn 10) (drop 1 r1) else r1)
            in if ip = [] \<and> fp = [] then None
               else
                 (let (e, r3) = exponentPart r2;
                      m = of_nat (valueOf 10 ip) + of_nat (valueOf 10 fp) / 10 ^ length fp
                  in Some (Fin ((if neg then - 1 else 1) * m * pow10 e), r3))))"

definition parseFloat :: "string \<Rightarrow> number" where
  "parseFloat s = (case strDecimalLiteral (trimStart s) of None \<Rightarrow> NaN | Some (v, r) \<Rightarrow> v)"

text \<open>
  \<open>Number(s)\<close> on a string: the whole trimmed string has to be a numeric literal; the
  empty string is \<open>0\<close>; \<open>0x\<close>, \<open>0o\<close> and \<open>0b\<close> prefixes (unsigned) select the radix.
\<close>

definition radixLiteral :: "nat \<Rightarrow> string \<Rightarrow> number" where
  "radixLiteral R ds = (if ds \<noteq> [] \<and> list_all (isDigitIn R) ds then Fin (of_nat (valueOf R ds)) else NaN)"

definition stringToNumber :: "string \<Rightarrow> number" where
  "stringToNumber s =
     (let t = trim s
      in if t = [] then Fin 0
         else if take 2 t = ''0x'' \<or> take 2 t = ''0X'' then radixLiteral 16 (drop 2 t)
         else if take 2 t = ''0o'' \<or> take 2 t = ''0O'' then radixLiteral 8 (drop 2 t)
         else if take 2 t = ''0b'' \<or> take 2 t = ''0B'' then radixLiteral 2 (drop 2 t)
         else (case strDecimalLiteral t of
                 Some (v, r) \<Rightarrow> if r = [] then v else NaN
               | None \<Rightarrow> NaN))"

text \<open>The decimal digits of an integer that is not negative, and of a natural number.\<close>

function showDigits :: "int \<Rightarrow> string" where
  "showDigits n = (if n < 10 then [''0123456789'' ! nat n]
                   else showDigits (n div 10) @ [''0123456789'' ! nat (n mod 10)])"
  by pat_completeness auto
termination
  by (relation "measure nat") auto

declare showDigits.simps [simp del]

definition showNat :: "nat \<Rightarrow> string" where
  "showNat n = showDigits (int n)"

text \<open>
  \<open>String(x)\<close> on a number (\<open>Number::toString\<close>).  For \<open>x > 0\<close> the standard takes the
  integers \<open>n\<close>, \<open>k\<close> and \<open>s\<close> with \<open>x = s * 10^(n - k)\<close>, \<open>s\<close> of \<open>k\<close> digits and \<open>k\<close> as
  small as possible, and writes the digits of \<open>s\<close>: followed by zeros when
  \<open>k \<le> n \<le> 21\<close>, with a point after \<open>n\<close> digits when \<open>0 < n \<le> 21\<close>, after \<open>0.\<close> and zeros
  when \<open>-6 < n \<le> 0\<close>, and with an exponent otherwise.  Here \<open>x\<close> is the decimal number
  a cell holds; \<open>scaleOf\<close> counts its decimal places (up to 400, more than a double
  has), and the digits without their trailing zeros are \<open>s\<close>.
\<close>

fun scaleOf :: "nat \<Rightarrow> rat \<Rightarrow> nat" where
  "scaleOf 0 q = 0"
| "scaleOf (Suc f) q = (if q = of_int \<lfloor>q\<rfloor> then 0 else Suc (scaleOf f (q * 10)))"

definition showExponent :: "int \<Rightarrow> string" where
  "showExponent e = (if e < 0 then CHR ''-'' # showDigits (- e) else CHR ''+'' # showDigits e)"

definition showUnsigned :: "rat \<Rightarrow> string" where
  "showUnsigned q =
     (let j = scaleOf 400 q;
          digits = showDigits \<lfloor>q * 10 ^ j\<rfloor>;
          z = length (takeWhile (\<lambda>c. c = CHR ''0'') (rev digits));
          ds = take (length digits - z) digits;
          k = int (length ds);
          n = int (length digits) - int j
      in if k \<le> n \<and> n \<le> 21 then ds @ replicate (nat (n - k)) (CHR ''0'')
         else if 0 < n \<and> n \<le> 21 then take (nat n) ds @ ''.'' @ drop (nat n) ds
         else if - 6 < n \<and> n \<le> 0 then ''0.'' @ replicate (nat (- n)) (CHR ''0'') @ ds
         else if k = 1 then ds @ ''e'' @ showExponent (n - 1)
         else take 1 ds @ ''.'' @ drop 1 ds @ ''e'' @ showExponent (n - 1))"

definition showNumber :: "rat \<Rightarrow> string" where
  "showNumber q = (if q = 0 then ''0''
                   else if q < 0 then CHR ''-'' # showUnsigned (- q)
                   else showUnsigned q)"

text \<open>\<open>Math.round(x)\<close>: the nearest integer, a tie going up.\<close>

definition mathRound :: "rat \<Rightarrow> int" where
  "mathRound x = \<lfloor>x + 1 / 2\<rfloor>"


section \<open>Rows of the parsed sheet\<close>

text \<open>
  \<open>ExcelRow\<close> is an object from header to value, a value being a string or a number.
  A row is the list of its (header, value) entries in the order of \<open>Object.keys\<close>;
  \<open>row[k]\<close> is the value of the entry with key \<open>k\<close>, or \<open>undefined\<close> (\<open>None\<close>).
  A numeric cell is modelled by the rational value of the decimal number it holds (an
  integer or a fraction such as 19.99 or 45000.5); the double of the program is the one
  nearest to it.  A sheet read by \<open>XLSX.utils.sheet_to_json\<close> has no entry for an empty
  cell.
\<close>

datatype cell = Str string | Num rat

type_synonym row = "(string \<times> cell) list"

definition rowGet :: "row \<Rightarrow> string \<Rightarrow> cell option" where
  "rowGet row k = map_of row k"

text \<open>Truthiness of a value: \<open>undefined\<close>, the empty string and \<open>0\<close> are falsy.\<close>

definition truthy :: "cell option \<Rightarrow> bool" where
  "truthy v = (case v of None \<Rightarrow> False | Some (Str s) \<Rightarrow> s \<noteq> [] | Some (Num n) \<Rightarrow> n \<noteq> 0)"

text \<open>\<open>String(v)\<close>.\<close>

definition toString :: "cell option \<Rightarrow> string" where
  "toString v = (case v of None \<Rightarrow> ''undefined'' | Some (Str s) \<Rightarrow> s | Some (Num n) \<Rightarrow> showNumber n)"

text \<open>
  \<open>getKey\<close> of the import route (line 50): the first key of the row that equals the
  wanted key after lower-casing and trimming both.
\<close>

definition getKey :: "row \<Rightarrow> string \<Rightarrow> string option" where
  "getKey row key = List.find (\<lambda>k. trim (toLowerCase k) = trim (toLowerCase key)) (map fst row)"

text \<open>\<open>a || b\<close> on a key that may be \<open>undefined\<close>: \<open>undefined\<close> and the empty string are falsy.\<close>

definition orKey :: "string option \<Rightarrow> string \<Rightarrow> string" where
  "orKey a b = (case a of None \<Rightarrow> b | Some k \<Rightarrow> if k = [] then b else k)"

text \<open>
  The chain \<open>getKey(a1) || getKey(a2) || ... || ''\<close> over the aliases of a field, and
  the value \<open>row[...]\<close> read with it (lines 53 to 61).  The aliases of each field are
  listed in the order in which the route tries them.
\<close>

fun firstKey :: "row \<Rightarrow> string list \<Rightarrow> string" where
  "firstKey row [] = []"
| "firstKey row (a # as) = orKey (getKey row a) (firstKey row as)"

definition resolve :: "row \<Rightarrow> string list \<Rightarrow> cell option" where
  "resolve row aliases = rowGet row (firstKey row aliases)"

definition itemNameAliases :: "string list" where
  "itemNameAliases = [''item name'', ''itemname'']"

definition sellingPriceAliases :: "string list" where
  "sellingPriceAliases = [''selling price'', ''price'']"

definition currentQuantityAliases :: "string list" where
  "currentQuantityAliases = [''current quantity'', ''current qty'', ''quantity'']"

definition unitTypeAliases :: "string list" where
  "unitTypeAliases = [''unit type'', ''unit'']"

definition expiryDateAliases :: "string list" where
  "expiryDateAliases = [''expiry date'', ''expiry'']"

definition statusAliases :: "string list" where
  "statusAliases = [''status'']"

definition itemNameRaw :: "row \<Rightarrow> cell option" where
  "itemNameRaw row = resolve row itemNameAliases"

definition sellingPriceRaw :: "row \<Rightarrow> cell option" where
  "sellingPriceRaw row = resolve row sellingPriceAliases"

definition currentQuantityRaw :: "row \<Rightarrow> cell option" where
  "currentQuantityRaw row = resolve row currentQuantityAliases"

definition unitTypeRaw :: "row \<Rightarrow> cell option" where
  "unitTypeRaw row = resolve row unitTypeAliases"

definition expiryDateRaw :: "row \<Rightarrow> cell option" where
  "expiryDateRaw row = resolve row expiryDateAliases"

definition statusRaw :: "row \<Rightarrow> cell option" where
  "statusRaw row = resolve row statusAliases"

subsection \<open>Coercion of the fields\<close>

text \<open>
  Lines 64 and 65: \<open>parseFloat(String(sellingPriceRaw)) || 0\<close> and
  \<open>parseInt(String(currentQuantityRaw)) || 0\<close>.
\<close>

definition coercePrice :: "row \<Rightarrow> number" where
  "coercePrice row = orZero (parseFloat (toString (sellingPriceRaw row)))"

definition coerceQuantity :: "row \<Rightarrow> number" where
  "coerceQuantity row = orZero (parseInt (toString (currentQuantityRaw row)))"

text \<open>Line 66: \<open>String(statusRaw || 'not yet')\<close>.\<close>

definition coerceStatus :: "row \<Rightarrow> string" where
  "coerceStatus row = (if truthy (statusRaw row) then toString (statusRaw row) else ''not yet'')"

text \<open>
  A \<open>Date\<close> holds a time value in milliseconds since 1970-01-01T00:00:00Z, or is invalid;
  \<open>new Date(ms)\<close> is invalid beyond 8.64e15 ms on either side of the epoch.
  \<open>new Date(string)\<close> depends on the engine's date parser, which is a parameter
  \<open>dp\<close> of the embedding.
\<close>

datatype date = InvalidDate | Time int

definition newDate :: "int \<Rightarrow> date" where
  "newDate ms = (if \<bar>ms\<bar> \<le> 8640000000000000 then Time ms else InvalidDate)"

text \<open>
  The expiry date of a row (lines 69 to 78): \<open>null\<close> (\<open>None\<close>) for a falsy cell; for a
  numeric cell the date serial is shifted by 25569 days, scaled to milliseconds and
  rounded (\<open>new Date(Math.round((expiryDateRaw - 25569)*86400*1000))\<close>); for a string cell
  the string is parsed.
\<close>

definition expiryDateOf :: "(string \<Rightarrow> date) \<Rightarrow> row \<Rightarrow> date option" where
  "expiryDateOf dp row =
     (if truthy (expiryDateRaw row) then
        (case expiryDateRaw row of
           Some (Num n) \<Rightarrow> Some (newDate (mathRound ((n - 25569) * 86400 * 1000)))
         | raw \<Rightarrow> Some (dp (toString raw)))
      else None)"

text \<open>\<open>expiryDate && !isNaN(expiryDate.getTime())\<close>.\<close>

definition validDate :: "date option \<Rightarrow> bool" where
  "validDate d = (case d of Some (Time t) \<Rightarrow> True | _ \<Rightarrow> False)"

section \<open>The item store\<close>

text \<open>
  The table \<open>InventoryItem\<close>: \<open>unitType\<close> and \<open>expiryDate\<close> are nullable.  The
  store-managed time stamps \<open>createdAt\<close> and \<open>updatedAt\<close> are left out.  The writable
  columns of an import form the record \<open>item_data\<close>; an item extends it with its key, its
  name and the sold quantity.
\<close>

record item_data =
  sellingPrice :: number
  currentQuantity :: number
  unitType :: "string option"
  expiryDate :: "date option"
  status :: string

record item = item_data +
  item_id :: nat
  itemName :: string
  soldQuantity :: int

record store =
  items :: "item list"
  nextId :: nat

text \<open>
  Every call of the store may throw (the data base is unreachable, the client rejects a
  value).  Which calls throw is outside the route: it is a parameter \<open>flt\<close>, giving the
  message of the exception for the requests that fail.  \<open>findFirst\<close> has no \<open>orderBy\<close>; it
  is taken to return the first match in the order of the list, which is the order of
  insertion.  \<open>update\<close> changes the rows with the given id, and throws when there is none.
  \<open>create\<close> appends a row under the next id.
\<close>

record body =
  b_itemName :: "string option"
  b_sellingPrice :: "cell option"
  b_currentQuantity :: "cell option"
  b_unitType :: "string option"
  b_expiryDate :: "string option"
  b_status :: "string option"

datatype request =
  FindFirst string | Update nat item_data | Create string item_data | UpdateBody nat body

type_synonym faults = "store \<Rightarrow> request \<Rightarrow> string option"

definition noFaults :: faults where
  "noFaults s r = None"

definition findFirst :: "faults \<Rightarrow> store \<Rightarrow> string \<Rightarrow> string + item option" where
  "findFirst flt s n =
     (case flt s (FindFirst n) of
        Some e \<Rightarrow> Inl e
      | None \<Rightarrow> Inr (List.find (\<lambda>x. itemName x = n) (items s)))"

definition setFields :: "item_data \<Rightarrow> item \<Rightarrow> item" where
  "setFields d x = x\<lparr>sellingPrice := sellingPrice d, currentQuantity := currentQuantity d,
                     unitType := unitType d, expiryDate := expiryDate d, status := status d\<rparr>"

definition update :: "faults \<Rightarrow> store \<Rightarrow> nat \<Rightarrow> item_data \<Rightarrow> string + store" where
  "update flt s i d =
     (case flt s (Update i d) of
        Some e \<Rightarrow> Inl e
      | None \<Rightarrow>
          if \<exists>x \<in> set (items s). item_id x = i
          then Inr (s\<lparr>items := map (\<lambda>x. if item_id x = i then setFields d x else x) (items s)\<rparr>)
          else Inl ''Record to update not found.'')"

definition newItem :: "nat \<Rightarrow> string \<Rightarrow> item_data \<Rightarrow> item" where
  "newItem i n d = \<lparr>sellingPrice = sellingPrice d, currentQuantity = currentQuantity d,
                    unitType = unitType d, expiryDate = expiryDate d, status = status d,
                    item_id = i, itemName = n, soldQuantity = 0\<rparr>"

definition create :: "faults \<Rightarrow> store \<Rightarrow> string \<Rightarrow> item_data \<Rightarrow> string + store" where
  "create flt s n d =
     (case flt s (Create n d) of
        Some e \<Rightarrow> Inl e
      | None \<Rightarrow> Inr \<lparr>items = items s @ [newItem (nextId s) n d], nextId = Suc (nextId s)\<rparr>)"

section \<open>The import route\<close>

text \<open>The data of the update of an existing item (lines 90 to 106).\<close>

definition updateData :: "(string \<Rightarrow> date) \<Rightarrow> row \<Rightarrow> item \<Rightarrow> item_data" where
  "updateData dp row existingItem =
     (let newQuantity = (if coerceQuantity row = Fin 0 then currentQuantity existingItem
                         else coerceQuantity row);
          newStatus = (if truthy (statusRaw row) then toString (statusRaw row)
                       else status existingItem)
      in \<lparr>sellingPrice = coercePrice row,
          currentQuantity = newQuantity,
          unitType = Some (if truthy (unitTypeRaw row) then toString (unitTypeRaw row)
                           else (case unitType existingItem of
                                   Some u \<Rightarrow> u
                                 | None \<Rightarrow> [])),
          expiryDate = (if validDate (expiryDateOf dp row) then expiryDateOf dp row
                        else expiryDate existingItem),
          status = toLowerCase newStatus\<rparr>)"

text \<open>The data of the creation of a new item (lines 112 to 119).\<close>

definition createData :: "(string \<Rightarrow> date) \<Rightarrow> row \<Rightarrow> item_data" where
  "createData dp row =
     \<lparr>sellingPrice = coercePrice row,
      currentQuantity = coerceQuantity row,
      unitType = Some (if truthy (unitTypeRaw row) then toString (unitTypeRaw row) else []),
      expiryDate = (if validDate (expiryDateOf dp row) then expiryDateOf dp row else None),
      status = toLowerCase (coerceStatus row)\<rparr>"

text \<open>
  One turn of the loop over the rows (lines 48 to 123).  \<open>Inl e\<close>: a call threw \<open>e\<close>; \<open>Inr None\<close>: the row
  was skipped by \<open>continue\<close>; \<open>Inr (Some s')\<close>: the row was written and is counted.
\<close>

definition importRow :: "(string \<Rightarrow> date) \<Rightarrow> faults \<Rightarrow> row \<Rightarrow> store \<Rightarrow> string + store option" where
  "importRow dp flt row s =
     (if \<not> truthy (itemNameRaw row) then Inr None
      else
        (case findFirst flt s (toString (itemNameRaw row)) of
           Inl e \<Rightarrow> Inl e
         | Inr (Some existingItem) \<Rightarrow>
             (case update flt s (item_id existingItem) (updateData dp row existingItem) of
                Inl e \<Rightarrow> Inl e
              | Inr s' \<Rightarrow> Inr (Some s'))
         | Inr None \<Rightarrow>
             (case create flt s (toString (itemNameRaw row)) (createData dp row) of
                Inl e \<Rightarrow> Inl e
              | Inr s' \<Rightarrow> Inr (Some s'))))"

text \<open>
  The loop with its counter.  An exception leaves the loop with the store as the rows
  before it left it: nothing is rolled back.
\<close>

fun importRows :: "(string \<Rightarrow> date) \<Rightarrow> faults \<Rightarrow> row list \<Rightarrow> store \<Rightarrow> nat \<Rightarrow> (string + nat) \<times> store" where
  "importRows dp flt [] s count = (Inr count, s)"
| "importRows dp flt (row # rows) s count =
     (case importRow dp flt row s of
        Inl e \<Rightarrow> (Inl e, s)
      | Inr None \<Rightarrow> importRows dp flt rows s count
      | Inr (Some s') \<Rightarrow> importRows dp flt rows s' (Suc count))"

text \<open>
  The handler: the upload holds no file, or the rows of the first sheet.  The answer is
  the JSON body with its HTTP status.
\<close>

datatype upload = NoFile | Sheet "row list"

datatype response = Success string nat | Failure nat string | Record nat item

definition POST :: "(string \<Rightarrow> date) \<Rightarrow> faults \<Rightarrow> upload \<Rightarrow> store \<Rightarrow> response \<times> store" where
  "POST dp flt u s =
     (case u of
        NoFile \<Rightarrow> (Failure 400 ''No file uploaded'', s)
      | Sheet jsonData \<Rightarrow>
          (case importRows dp flt jsonData s 0 of
             (Inr count, s') \<Rightarrow> (Success (''Processed '' @ showNat count @ '' items successfully'') count, s')
           | (Inl e, s') \<Rightarrow> (Failure 500 (''Failed to import data: '' @ e), s')))"


section \<open>The endpoints of the user interface\<close>

text \<open>
  The create and the edit endpoint read a JSON body.  Its text members are a string or
  missing (\<open>None\<close>); its numbers arrive as a number or as the string typed into the form.
\<close>

text \<open>\<open>Number(v)\<close>.\<close>

definition toNumber :: "cell option \<Rightarrow> number" where
  "toNumber v = (case v of None \<Rightarrow> NaN | Some (Str s) \<Rightarrow> stringToNumber s | Some (Num n) \<Rightarrow> Fin n)"

text \<open>\<open>v ? new Date(v) : null\<close> on a string that may be missing.\<close>

definition bodyDate :: "(string \<Rightarrow> date) \<Rightarrow> string option \<Rightarrow> date option" where
  "bodyDate dp v = (case v of None \<Rightarrow> None | Some e \<Rightarrow> if e = [] then None else Some (dp e))"

text \<open>\<open>v || d\<close> on a string that may be missing.\<close>

definition orString :: "string option \<Rightarrow> string \<Rightarrow> string" where
  "orString v d = (case v of None \<Rightarrow> d | Some t \<Rightarrow> if t = [] then d else t)"

text \<open>The create endpoint (\<open>POST /api/inventory\<close>).\<close>

definition POST_create :: "(string \<Rightarrow> date) \<Rightarrow> faults \<Rightarrow> body \<Rightarrow> store \<Rightarrow> response \<times> store" where
  "POST_create dp flt b s =
     (if orString (b_itemName b) [] = [] \<or> b_sellingPrice b = None \<or> b_currentQuantity b = None
      then (Failure 400 ''Missing required fields: itemName, sellingPrice, and currentQuantity are required.'', s)
      else
        (let d = \<lparr>sellingPrice = toNumber (b_sellingPrice b),
                  currentQuantity = toNumber (b_currentQuantity b),
                  unitType = Some (orString (b_unitType b) []),
                  expiryDate = bodyDate dp (b_expiryDate b),
                  status = orString (b_status b) ''not yet''\<rparr>
         in case create flt s (orString (b_itemName b) []) d of
              Inl e \<Rightarrow> (Failure 500 ''Failed to create item'', s)
            | Inr s' \<Rightarrow> (Record 201 (newItem (nextId s) (orString (b_itemName b) []) d), s')))"

text \<open>
  The edit endpoint (\<open>PUT /api/inventory/[id]\<close>).  A member the body lacks is
  \<open>undefined\<close> in the data, which the store leaves as it is.
\<close>

definition putItem :: "(string \<Rightarrow> date) \<Rightarrow> body \<Rightarrow> item \<Rightarrow> item" where
  "putItem dp b x =
     x\<lparr>itemName := (case b_itemName b of Some n \<Rightarrow> n | None \<Rightarrow> itemName x),
       sellingPrice := parseFloat (toString (b_sellingPrice b)),
       currentQuantity := parseInt (toString (b_currentQuantity b)),
       unitType := (case b_unitType b of Some u \<Rightarrow> Some u | None \<Rightarrow> unitType x),
       status := (case b_status b of Some t \<Rightarrow> t | None \<Rightarrow> status x),
       expiryDate := bodyDate dp (b_expiryDate b)\<rparr>"

definition PUT :: "(string \<Rightarrow> date) \<Rightarrow> faults \<Rightarrow> string \<Rightarrow> body \<Rightarrow> store \<Rightarrow> response \<times> store" where
  "PUT dp flt ident b s =
     (case List.find (\<lambda>x. Fin (of_nat (item_id x)) = parseInt ident) (items s) of
        None \<Rightarrow> (Failure 500 ''Failed to update item'', s)
      | Some x \<Rightarrow>
          (case flt s (UpdateBody (item_id x) b) of
             Some e \<Rightarrow> (Failure 500 ''Failed to update item'', s)
           | None \<Rightarrow>
               (Record 200 (putItem dp b x),
                s\<lparr>items := map (\<lambda>y. if item_id y = item_id x then putItem dp b y else y) (items s)\<rparr>)))"

section \<open>The import without exceptions, as a function on the list of items\<close>

text \<open>
  The definitions of this section serve the proof that an import can be repeated.  They
  describe what a row does to a well-formed store whose calls do not throw: the first
  item with the name of the row is updated, or a new item is appended.
\<close>

definition rowName :: "row \<Rightarrow> string" where
  "rowName row = toString (itemNameRaw row)"

definition applyRow :: "(string \<Rightarrow> date) \<Rightarrow> row \<Rightarrow> item \<Rightarrow> item" where
  "applyRow dp row x = setFields (updateData dp row x) x"

definition createItem :: "(string \<Rightarrow> date) \<Rightarrow> row \<Rightarrow> nat \<Rightarrow> item" where
  "createItem dp row i = newItem i (rowName row) (createData dp row)"

fun upsert :: "(string \<Rightarrow> date) \<Rightarrow> row \<Rightarrow> nat \<Rightarrow> item list \<Rightarrow> item list" where
  "upsert dp row i [] = [createItem dp row i]"
| "upsert dp row i (x # xs) =
     (if itemName x = rowName row then applyRow dp row x # xs else x # upsert dp row i xs)"

fun run :: "(string \<Rightarrow> date) \<Rightarrow> row list \<Rightarrow> item list \<Rightarrow> nat \<Rightarrow> item list \<times> nat" where
  "run dp [] xs i = (xs, i)"
| "run dp (r # rs) xs i =
     run dp rs (upsert dp r i xs) (if rowName r \<in> itemName ` set xs then i else Suc i)"

text \<open>The key \<open>id\<close> is unique, and the next key is above every key in use.\<close>

definition wellFormed :: "store \<Rightarrow> bool" where
  "wellFormed s = (distinct (map item_id (items s)) \<and> (\<forall>x\<in>set (items s). item_id x < nextId s))"

text \<open>
  What a row provides: a price always, and a quantity, a unit, an expiry date and a
  status only when its cell passes the test of the route.  An update applies the patch
  of the row to the item, after the unit and the status of the item are normalised.
\<close>

record patch =
  p_price :: number
  p_quantity :: "number option"
  p_unit :: "string option"
  p_expiry :: "date option option"
  p_status :: "string option"

definition patchOf :: "(string \<Rightarrow> date) \<Rightarrow> row \<Rightarrow> patch" where
  "patchOf dp row =
     \<lparr>p_price = coercePrice row,
      p_quantity = (if coerceQuantity row = Fin 0 then None else Some (coerceQuantity row)),
      p_unit = (if truthy (unitTypeRaw row) then Some (toString (unitTypeRaw row)) else None),
      p_expiry = (if validDate (expiryDateOf dp row) then Some (expiryDateOf dp row) else None),
      p_status = (if truthy (statusRaw row) then Some (toLowerCase (toString (statusRaw row)))
                  else None)\<rparr>"

definition applyPatch :: "patch \<Rightarrow> item \<Rightarrow> item" where
  "applyPatch p x =
     x\<lparr>sellingPrice := p_price p,
       currentQuantity := (case p_quantity p of Some q \<Rightarrow> q | None \<Rightarrow> currentQuantity x),
       unitType := (case p_unit p of Some u \<Rightarrow> Some u | None \<Rightarrow> unitType x),
       expiryDate := (case p_expiry p of Some e \<Rightarrow> e | None \<Rightarrow> expiryDate x),
       status := (case p_status p of Some t \<Rightarrow> t | None \<Rightarrow> status x)\<rparr>"

definition normalise :: "item \<Rightarrow> item" where
  "normalise x = x\<lparr>unitType := Some (case unitType x of Some u \<Rightarrow> u | None \<Rightarrow> []),
                    status := toLowerCase (status x)\<rparr>"

definition thenPatch :: "patch \<Rightarrow> patch \<Rightarrow> patch" where
  "thenPatch p q =
     \<lparr>p_price = p_price q,
      p_quantity = (case p_quantity q of Some v \<Rightarrow> Some v | None \<Rightarrow> p_quantity p),
      p_unit = (case p_unit q of Some v \<Rightarrow> Some v | None \<Rightarrow> p_unit p),
      p_expiry = (case p_expiry q of Some v \<Rightarrow> Some v | None \<Rightarrow> p_expiry p),
      p_status = (case p_status q of Some v \<Rightarrow> Some v | None \<Rightarrow> p_status p)\<rparr>"

definition lowerPatch :: "patch \<Rightarrow> bool" where
  "lowerPatch p = (case p_status p of Some t \<Rightarrow> toLowerCase t = t | None \<Rightarrow> True)"

text \<open>The item a creation starts from, before the patch of the row is applied.\<close>

definition blankItem :: "nat \<Rightarrow> string \<Rightarrow> item" where
  "blankItem i n = \<lparr>sellingPrice = Fin 0, currentQuantity = Fin 0, unitType = None,
                     expiryDate = None, status = ''not yet'',
                     item_id = i, itemName = n, soldQuantity = 0\<rparr>"

section \<open>Example data\<close>

text \<open>
  A store with one item, \<open>Widget\<close>: 50 in stock, expiring on 2025-01-01
  (1735689600000 ms after the epoch), status \<open>checked\<close>.
\<close>

definition widget :: item where
  "widget = \<lparr>sellingPrice = Fin 10, currentQuantity = Fin 50, unitType = Some ''pcs'',
              expiryDate = Some (Time 1735689600000), status = ''checked'',
              item_id = 1, itemName = ''Widget'', soldQuantity = 0\<rparr>"

definition stock :: store where
  "stock = \<lparr>items = [widget], nextId = 2\<rparr>"

text \<open>A date parser that accepts no string at all.\<close>

definition noDates :: "string \<Rightarrow> date" where
  "noDates s = InvalidDate"

definition rowQty12 :: row where
  "rowQty12 = [(''Item Name'', Str ''Widget''), (''Quantity'', Num 12)]"

definition rowQtyBlank :: row where
  "rowQtyBlank = [(''Item Name'', Str ''Widget''), (''Price'', Str ''10'')]"

definition rowQtyZero :: row where
  "rowQtyZero = [(''Item Name'', Str ''Widget''), (''Quantity'', Num 0)]"

definition rowStatusNew :: row where
  "rowStatusNew = [(''Item Name'', Str ''Widget''), (''Status'', Str ''NEW'')]"

definition rowExpiryBad :: row where
  "rowExpiryBad = [(''Item Name'', Str ''Widget''), (''Expiry'', Str ''soon'')]"

definition rowGadget :: row where
  "rowGadget = [(''Item Name'', Str ''Gadget''), (''Selling Price'', Str ''19.99''),
                (''Current Quantity'', Str ''3'')]"



definition rowNoName :: row where
  "rowNoName = [(''Price'', Str ''5''), (''Quantity'', Num 7)]"

text \<open>A store that rejects the creation of an item named \<open>Gadget\<close>.\<close>

definition rejectGadget :: faults where
  "rejectGadget s r = (case r of Create n d \<Rightarrow> if n = ''Gadget'' then Some ''Invalid value'' else None
                              | _ \<Rightarrow> None)"

text \<open>The store after the row \<open>rowQty12\<close>: no price cell, so the price is 0; the quantity is 12.\<close>

definition stock12 :: store where
  "stock12 = \<lparr>items = [widget\<lparr>sellingPrice := Fin 0, currentQuantity := Fin 12\<rparr>], nextId = 2\<rparr>"

text \<open>The item the row \<open>rowGadget\<close> creates, and the store after it.\<close>

definition gadget :: item where
  "gadget = \<lparr>sellingPrice = Fin (1999 / 100), currentQuantity = Fin 3, unitType = Some [],
              expiryDate = None, status = ''not yet'',
              item_id = 2, itemName = ''Gadget'', soldQuantity = 0\<rparr>"

definition stockGadget :: store where
  "stockGadget = \<lparr>items = [widget, gadget], nextId = 3\<rparr>"

text \<open>Bodies for the add and the edit form.\<close>

definition bodyNut :: body where
  "bodyNut = \<lparr>b_itemName = Some ''Nut'', b_sellingPrice = Some (Str ''-2.5''),
               b_currentQuantity = Some (Str ''4''), b_unitType = None,
               b_expiryDate = None, b_status = Some ''New''\<rparr>"

definition nut :: item where
  "nut = \<lparr>sellingPrice = Fin (- (5 / 2)), currentQuantity = Fin 4, unitType = Some [],
           expiryDate = None, status = ''New'',
           item_id = 2, itemName = ''Nut'', soldQuantity = 0\<rparr>"

definition bodyEdit :: body where
  "bodyEdit = \<lparr>b_itemName = Some ''Widget'', b_sellingPrice = Some (Num 10),
                b_currentQuantity = Some (Num (- 4)), b_unitType = Some ''pcs'',
                b_expiryDate = None, b_status = Some ''CHECKED''\<rparr>"

definition widgetEdited :: item where
  "widgetEdited = \<lparr>sellingPrice = Fin 10, currentQuantity = Fin (- 4), unitType = Some ''pcs'',
                    expiryDate = None, status = ''CHECKED'',
                    item_id = 1, itemName = ''Widget'', soldQuantity = 0\<rparr>"

text \<open>The store after the rows \<open>rowQty12\<close>, \<open>rowGadget\<close> and \<open>rowQtyZero\<close>.\<close>

definition stockTwice :: store where
  "stockTwice = \<lparr>items = [widget\<lparr>sellingPrice := Fin 0, currentQuantity := Fin 12\<rparr>, gadget],
                  nextId = 3\<rparr>"

text \<open>The store after the row \<open>rowQtyZero\<close>: the price is 0, the quantity is still 50.\<close>

definition widgetZero :: item where
  "widgetZero = widget\<lparr>sellingPrice := Fin 0\<rparr>"

definition stockZero :: store where
  "stockZero = \<lparr>items = [widgetZero], nextId = 2\<rparr>"

section \<open>Facts about the store and one row\<close>

lemma itemName_setFields [simp]: "itemName (setFields d y) = itemName y"
  by (simp add: setFields_def)

lemma item_id_setFields [simp]: "item_id (setFields d y) = item_id y"
  by (simp add: setFields_def)

lemma find_Some_mem: "List.find P xs = Some x \<Longrightarrow> x \<in> set xs \<and> P x"
  by (induction xs) (auto split: if_splits)

lemma find_name_after_update:
  "List.find (\<lambda>y. itemName y = n) xs = Some x \<Longrightarrow>
   List.find (\<lambda>y. itemName y = n)
     (map (\<lambda>y. if item_id y = item_id x then setFields d y else y) xs) = Some (setFields d x)"
  by (induction xs) (auto split: if_splits)

text \<open>A row whose name is found in the store, and whose update the store accepts.\<close>

lemma importRow_matching:
  assumes "truthy (itemNameRaw row)"
    and "findFirst flt s (toString (itemNameRaw row)) = Inr (Some x)"
    and "flt s (Update (item_id x) (updateData dp row x)) = None"
  shows "importRow dp flt row s =
           Inr (Some (s\<lparr>items := map (\<lambda>y. if item_id y = item_id x
                                              then setFields (updateData dp row x) y else y) (items s)\<rparr>))"
proof -
  from assms(2) have "List.find (\<lambda>y. itemName y = toString (itemNameRaw row)) (items s) = Some x"
    by (auto simp: findFirst_def split: option.splits)
  then have "x \<in> set (items s)" by (auto dest: find_Some_mem)
  then have "\<exists>y\<in>set (items s). item_id y = item_id x" by blast
  with assms show ?thesis
    by (simp add: importRow_def update_def)
qed

lemma importRow_matching_find:
  assumes "truthy (itemNameRaw row)"
    and "findFirst flt s (toString (itemNameRaw row)) = Inr (Some x)"
    and "flt s (Update (item_id x) (updateData dp row x)) = None"
  shows "\<exists>s'. importRow dp flt row s = Inr (Some s') \<and>
              List.find (\<lambda>y. itemName y = toString (itemNameRaw row)) (items s')
                = Some (setFields (updateData dp row x) x)"
proof -
  from assms(2) have f: "List.find (\<lambda>y. itemName y = toString (itemNameRaw row)) (items s) = Some x"
    by (auto simp: findFirst_def split: option.splits)
  show ?thesis
    using importRow_matching [OF assms] find_name_after_update [OF f] by simp
qed

lemma parseInt_undefined: "parseInt ''undefined'' = NaN"
  by code_simp

lemma parseInt_empty: "parseInt [] = NaN"
  by code_simp

lemma parseFloat_undefined: "parseFloat ''undefined'' = NaN"
  by code_simp

lemma parseFloat_empty: "parseFloat [] = NaN"
  by code_simp

section \<open>Facts about header resolution and the skip test\<close>

lemma getKey_Some_mem: "getKey row a = Some k \<Longrightarrow> k \<in> fst ` set row"
  by (auto simp: getKey_def dest!: find_Some_mem)

lemma rowGet_None_iff: "(rowGet row k = None) = (k \<notin> fst ` set row)"
  by (simp add: rowGet_def map_of_eq_None_iff)

text \<open>
  In a row without a header that is the empty string, a field is \<open>undefined\<close> exactly
  when none of its aliases matches a header.
\<close>

lemma resolve_None_iff:
  assumes "rowGet row [] = None"
  shows "(resolve row as = None) = (\<forall>a\<in>set as. getKey row a = None)"
proof -
  have "firstKey row as = [] \<and> (\<forall>a\<in>set as. getKey row a = None)
        \<or> firstKey row as \<in> fst ` set row \<and> (\<exists>a\<in>set as. getKey row a \<noteq> None)"
  proof (induction as)
    case Nil
    then show ?case by simp
  next
    case (Cons a as)
    show ?case
    proof (cases "getKey row a")
      case None
      with Cons show ?thesis by (auto simp: orKey_def)
    next
      case (Some k)
      then have "k \<in> fst ` set row" by (rule getKey_Some_mem)
      moreover from this assms have "k \<noteq> []" unfolding rowGet_None_iff by blast
      ultimately show ?thesis using Some by (simp add: orKey_def)
    qed
  qed
  then show ?thesis
  proof (elim disjE conjE)
    assume "firstKey row as = []" and "\<forall>a\<in>set as. getKey row a = None"
    with assms show ?thesis by (simp add: resolve_def)
  next
    assume "firstKey row as \<in> fst ` set row" and e: "\<exists>a\<in>set as. getKey row a \<noteq> None"
    then have "rowGet row (firstKey row as) \<noteq> None" by (simp add: rowGet_None_iff)
    with e show ?thesis by (auto simp: resolve_def)
  qed
qed

lemma not_truthy_iff: "(\<not> truthy v) = (v = None \<or> v = Some (Str []) \<or> v = Some (Num 0))"
  by (auto simp: truthy_def split: option.splits cell.splits)

lemma importRow_skip_iff: "(importRow dp flt row s = Inr None) = (\<not> truthy (itemNameRaw row))"
  by (auto simp: importRow_def split: sum.splits option.splits)

text \<open>When no call of the store throws, a row with a truthy name is written.\<close>

lemma importRow_noFaults:
  assumes "truthy (itemNameRaw row)" and "\<forall>t r. flt t r = None"
  shows "\<exists>s'. importRow dp flt row s = Inr (Some s')"
proof (cases "List.find (\<lambda>x. itemName x = toString (itemNameRaw row)) (items s)")
  case None
  with assms show ?thesis by (simp add: importRow_def findFirst_def create_def)
next
  case (Some x)
  then have "x \<in> set (items s)" by (auto dest: find_Some_mem)
  then have "\<exists>y\<in>set (items s). item_id y = item_id x" by blast
  with assms Some show ?thesis by (simp add: importRow_def findFirst_def update_def)
qed

section \<open>Facts about the loop\<close>

lemma importRows_count:
  "importRows dp flt rows s c = (Inr n, s') \<Longrightarrow>
   n = c + length (filter (\<lambda>r. truthy (itemNameRaw r)) rows)"
proof (induction rows arbitrary: s c)
  case Nil
  then show ?case by simp
next
  case (Cons row rows)
  show ?case
  proof (cases "importRow dp flt row s")
    case (Inl e)
    with Cons.prems show ?thesis by simp
  next
    case (Inr res)
    show ?thesis
    proof (cases res)
      case None
      with Inr have "\<not> truthy (itemNameRaw row)" by (simp add: importRow_skip_iff)
      with Cons Inr None show ?thesis by simp
    next
      case (Some t)
      with Inr have "truthy (itemNameRaw row)" using importRow_skip_iff [of dp flt row s] by auto
      with Cons.prems Inr Some Cons.IH [of t "Suc c"] show ?thesis by simp
    qed
  qed
qed

lemma importRows_append:
  "importRows dp flt (pre @ rest) s c =
     (case importRows dp flt pre s c of
        (Inr k, t) \<Rightarrow> importRows dp flt rest t k
      | (Inl e, t) \<Rightarrow> (Inl e, t))"
  by (induction pre arbitrary: s c) (auto split: sum.splits option.splits)

lemma importRows_noFaults:
  assumes "\<forall>t r. flt t r = None"
  shows "\<exists>n s'. importRows dp flt rows s c = (Inr n, s')"
proof (induction rows arbitrary: s c)
  case Nil
  then show ?case by simp
next
  case (Cons row rows)
  show ?case
  proof (cases "truthy (itemNameRaw row)")
    case True
    from importRow_noFaults [OF True assms] obtain s' where "importRow dp flt row s = Inr (Some s')"
      by blast
    with Cons [of s' "Suc c"] show ?thesis by simp
  next
    case False
    then have "importRow dp flt row s = Inr None" by (simp add: importRow_skip_iff)
    with Cons [of s c] show ?thesis by simp
  qed
qed

section \<open>Facts about the written records\<close>


lemma lowerChar_idem: "lowerChar (lowerChar c) = lowerChar c"
proof (cases "isUpper c")
  case False
  then show ?thesis by (simp add: lowerChar_def)
next
  case True
  then have "\<not> isUpper (char_of ((of_char c :: nat) + 32))"
    by (auto simp: isUpper_def Let_def)
  with True show ?thesis by (simp add: lowerChar_def)
qed

lemma toLowerCase_idem: "toLowerCase (toLowerCase s) = toLowerCase s"
  by (simp add: toLowerCase_def lowerChar_idem)

lemma status_updateData_lower: "toLowerCase (status (updateData dp row x)) = status (updateData dp row x)"
  by (simp add: updateData_def Let_def toLowerCase_idem)

lemma status_createData_lower: "toLowerCase (status (createData dp row)) = status (createData dp row)"
  by (simp add: createData_def toLowerCase_idem)

text \<open>
  What a row writes: a created item has the coerced price and quantity; an updated item
  has the coerced price, and the coerced quantity unless that is 0, in which case it
  keeps the quantity of the item found under the name of the row.
\<close>

lemma importRow_created:
  assumes "List.find (\<lambda>x. itemName x = toString (itemNameRaw row)) (items s) = None"
    and "importRow dp flt row s = Inr (Some s')"
  shows "\<exists>y. items s' = items s @ [y] \<and> toLowerCase (status y) = status y \<and>
             sellingPrice y = coercePrice row \<and> currentQuantity y = coerceQuantity row"
proof -
  let ?y = "newItem (nextId s) (toString (itemNameRaw row)) (createData dp row)"
  from assms have "items s' = items s @ [?y]"
    by (auto simp: importRow_def findFirst_def create_def split: if_splits option.splits sum.splits)
  moreover have "toLowerCase (status ?y) = status ?y"
    using status_createData_lower [of dp row] by (simp add: newItem_def)
  moreover have "sellingPrice ?y = coercePrice row" and "currentQuantity ?y = coerceQuantity row"
    by (simp_all add: newItem_def createData_def)
  ultimately show ?thesis by blast
qed

lemma importRow_updated:
  assumes "List.find (\<lambda>x. itemName x = toString (itemNameRaw row)) (items s) = Some x"
    and "importRow dp flt row s = Inr (Some s')"
  shows "(\<exists>y. List.find (\<lambda>y. itemName y = toString (itemNameRaw row)) (items s') = Some y \<and>
              item_id y = item_id x \<and>
              toLowerCase (status y) = status y \<and> sellingPrice y = coercePrice row \<and>
              currentQuantity y = (if coerceQuantity row = Fin 0 then currentQuantity x
                                   else coerceQuantity row)) \<and>
         (\<forall>y\<in>set (items s'). y \<in> set (items s) \<or>
              toLowerCase (status y) = status y \<and> sellingPrice y = coercePrice row \<and>
              currentQuantity y = (if coerceQuantity row = Fin 0 then currentQuantity x
                                   else coerceQuantity row))"
proof -
  let ?d = "updateData dp row x"
  have d: "toLowerCase (status ?d) = status ?d" "sellingPrice ?d = coercePrice row"
    "currentQuantity ?d = (if coerceQuantity row = Fin 0 then currentQuantity x
                           else coerceQuantity row)"
    using status_updateData_lower [of dp row x] by (simp_all add: updateData_def Let_def)
  have w: "\<And>z. toLowerCase (status (setFields ?d z)) = status (setFields ?d z) \<and>
                sellingPrice (setFields ?d z) = coercePrice row \<and>
                currentQuantity (setFields ?d z) =
                  (if coerceQuantity row = Fin 0 then currentQuantity x else coerceQuantity row)"
    using d by (simp add: setFields_def)
  from assms have i: "items s' = map (\<lambda>y. if item_id y = item_id x then setFields ?d y else y) (items s)"
    by (auto simp: importRow_def findFirst_def update_def split: if_splits option.splits sum.splits)
  from find_name_after_update [OF assms(1), of ?d] i
  have "List.find (\<lambda>y. itemName y = toString (itemNameRaw row)) (items s') = Some (setFields ?d x)"
    by simp
  with w [of x] have first: "\<exists>y. List.find (\<lambda>y. itemName y = toString (itemNameRaw row)) (items s') = Some y \<and>
              item_id y = item_id x \<and>
              toLowerCase (status y) = status y \<and> sellingPrice y = coercePrice row \<and>
              currentQuantity y = (if coerceQuantity row = Fin 0 then currentQuantity x
                                   else coerceQuantity row)"
    by (metis item_id_setFields)
  have "\<forall>y\<in>set (items s'). y \<in> set (items s) \<or>
              toLowerCase (status y) = status y \<and> sellingPrice y = coercePrice row \<and>
              currentQuantity y = (if coerceQuantity row = Fin 0 then currentQuantity x
                                   else coerceQuantity row)"
  proof
    fix y assume "y \<in> set (items s')"
    with i obtain z where z: "z \<in> set (items s)"
      and y: "y = (if item_id z = item_id x then setFields ?d z else z)" by auto
    show "y \<in> set (items s) \<or>
              toLowerCase (status y) = status y \<and> sellingPrice y = coercePrice row \<and>
              currentQuantity y = (if coerceQuantity row = Fin 0 then currentQuantity x
                                   else coerceQuantity row)"
    proof (cases "item_id z = item_id x")
      case True
      with y w [of z] show ?thesis by simp
    next
      case False
      with y z show ?thesis by simp
    qed
  qed
  with first show ?thesis by blast
qed

lemma orZero_not_NaN: "orZero x \<noteq> NaN"
  by (simp add: orZero_def)

section \<open>Facts about the import without exceptions\<close>



lemma upsert_absent:
  "rowName row \<notin> itemName ` set xs \<Longrightarrow> upsert dp row i xs = xs @ [createItem dp row i]"
  by (induction xs) auto

lemma find_None_names: "(List.find (\<lambda>x. itemName x = n) xs = None) = (n \<notin> itemName ` set xs)"
  by (induction xs) auto

lemma upsert_present:
  "List.find (\<lambda>y. itemName y = rowName row) xs = Some x \<Longrightarrow> distinct (map item_id xs) \<Longrightarrow>
   map (\<lambda>y. if item_id y = item_id x then setFields (updateData dp row x) y else y) xs
     = upsert dp row i xs"
proof (induction xs)
  case Nil
  then show ?case by simp
next
  case (Cons z zs)
  show ?case
  proof (cases "itemName z = rowName row")
    case True
    with Cons.prems have xz: "x = z" by simp
    from Cons.prems(2) have "\<forall>y\<in>set zs. item_id y \<noteq> item_id z"
      by (fastforce simp: image_iff)
    then have "map (\<lambda>y. if item_id y = item_id z then setFields (updateData dp row z) y else y) zs = zs"
      by (simp add: map_idI)
    with True show ?thesis unfolding xz by (simp add: applyRow_def)
  next
    case False
    with Cons.prems have f: "List.find (\<lambda>y. itemName y = rowName row) zs = Some x" by simp
    then have "x \<in> set zs" by (auto dest: find_Some_mem)
    with Cons.prems(2) have "item_id z \<noteq> item_id x" by (fastforce simp: image_iff)
    with Cons f False show ?thesis by simp
  qed
qed

lemma importRow_upsert:
  assumes "wellFormed s" and "truthy (itemNameRaw row)"
  shows "importRow dp noFaults row s =
           Inr (Some \<lparr>items = upsert dp row (nextId s) (items s),
                      nextId = (if rowName row \<in> itemName ` set (items s) then nextId s
                                else Suc (nextId s))\<rparr>)"
proof (cases "List.find (\<lambda>x. itemName x = rowName row) (items s)")
  case None
  then have "rowName row \<notin> itemName ` set (items s)" by (simp add: find_None_names)
  with assms None show ?thesis
    by (simp add: importRow_def findFirst_def noFaults_def create_def upsert_absent
        createItem_def rowName_def)
next
  case (Some x)
  then have x: "x \<in> set (items s)" and n: "itemName x = rowName row"
    by (auto dest: find_Some_mem)
  then have e: "\<exists>y\<in>set (items s). item_id y = item_id x" by blast
  from n x have m: "rowName row \<in> itemName ` set (items s)" by force
  from assms(1) have d: "distinct (map item_id (items s))" by (simp add: wellFormed_def)
  from upsert_present [OF Some d, of dp "nextId s"] assms Some e m show ?thesis
    by (simp add: importRow_def findFirst_def noFaults_def update_def rowName_def)
qed

lemma item_id_applyRow [simp]: "item_id (applyRow dp row x) = item_id x"
  by (simp add: applyRow_def)

lemma itemName_applyRow [simp]: "itemName (applyRow dp row x) = itemName x"
  by (simp add: applyRow_def)

lemma item_id_createItem [simp]: "item_id (createItem dp row i) = i"
  by (simp add: createItem_def newItem_def)

lemma itemName_createItem [simp]: "itemName (createItem dp row i) = rowName row"
  by (simp add: createItem_def newItem_def)

lemma ids_upsert:
  "map item_id (upsert dp row i xs) =
     (if rowName row \<in> itemName ` set xs then map item_id xs else map item_id xs @ [i])"
  by (induction xs) auto

lemma names_upsert:
  "map itemName (upsert dp row i xs) =
     (if rowName row \<in> itemName ` set xs then map itemName xs else map itemName xs @ [rowName row])"
  by (induction xs) auto

lemma wellFormed_upsert:
  assumes "wellFormed s"
  shows "wellFormed \<lparr>items = upsert dp row (nextId s) (items s),
                      nextId = (if rowName row \<in> itemName ` set (items s) then nextId s
                                else Suc (nextId s))\<rparr>"
proof -
  let ?xs = "upsert dp row (nextId s) (items s)"
  from assms have fresh: "nextId s \<notin> set (map item_id (items s))"
    by (auto simp: wellFormed_def)
  with assms have "distinct (map item_id ?xs)"
    by (simp add: ids_upsert wellFormed_def)
  moreover have "\<forall>x\<in>set ?xs. item_id x <
        (if rowName row \<in> itemName ` set (items s) then nextId s else Suc (nextId s))"
  proof
    fix x assume "x \<in> set ?xs"
    then have "item_id x \<in> set (map item_id ?xs)" by simp
    with assms show "item_id x <
        (if rowName row \<in> itemName ` set (items s) then nextId s else Suc (nextId s))"
      by (auto simp: ids_upsert wellFormed_def split: if_splits)
  qed
  ultimately show ?thesis by (simp add: wellFormed_def)
qed

lemma importRows_run:
  assumes "wellFormed s"
  shows "importRows dp noFaults rows s c =
           (Inr (c + length (filter (\<lambda>r. truthy (itemNameRaw r)) rows)),
            \<lparr>items = fst (run dp (filter (\<lambda>r. truthy (itemNameRaw r)) rows) (items s) (nextId s)),
             nextId = snd (run dp (filter (\<lambda>r. truthy (itemNameRaw r)) rows) (items s) (nextId s))\<rparr>)
         \<and> wellFormed \<lparr>items = fst (run dp (filter (\<lambda>r. truthy (itemNameRaw r)) rows) (items s) (nextId s)),
             nextId = snd (run dp (filter (\<lambda>r. truthy (itemNameRaw r)) rows) (items s) (nextId s))\<rparr>"
  using assms
proof (induction rows arbitrary: s c)
  case Nil
  then show ?case by (simp add: wellFormed_def)
next
  case (Cons row rows)
  show ?case
  proof (cases "truthy (itemNameRaw row)")
    case False
    then have "importRow dp noFaults row s = Inr None" by (simp add: importRow_skip_iff)
    with False Cons.IH [OF Cons.prems, of c] show ?thesis by simp
  next
    case True
    let ?s' = "\<lparr>items = upsert dp row (nextId s) (items s),
                 nextId = (if rowName row \<in> itemName ` set (items s) then nextId s
                           else Suc (nextId s))\<rparr>"
    from importRow_upsert [OF Cons.prems True, of dp]
    have i: "importRow dp noFaults row s = Inr (Some ?s')" .
    from wellFormed_upsert [OF Cons.prems, of dp row] have w: "wellFormed ?s'" .
    from Cons.IH [OF w, of "Suc c"] i True show ?thesis by simp
  qed
qed

section \<open>Facts about repeated updates\<close>


lemma applyRow_patch: "applyRow dp row x = applyPatch (patchOf dp row) (normalise x)"
  by (simp add: applyRow_def setFields_def updateData_def Let_def applyPatch_def patchOf_def
      normalise_def)

lemma createItem_blank: "createItem dp row i = applyRow dp row (blankItem i (rowName row))"
  by (simp add: createItem_def newItem_def createData_def applyRow_def setFields_def
      updateData_def Let_def blankItem_def coerceStatus_def)

lemma normalise_idem: "normalise (normalise x) = normalise x"
  by (simp add: normalise_def toLowerCase_idem)

lemma normalise_applyPatch:
  "lowerPatch p \<Longrightarrow> normalise (applyPatch p x) = applyPatch p (normalise x)"
  by (auto simp: normalise_def applyPatch_def lowerPatch_def split: option.splits)

lemma applyPatch_thenPatch: "applyPatch q (applyPatch p x) = applyPatch (thenPatch p q) x"
  by (auto simp: applyPatch_def thenPatch_def split: option.splits)

lemma applyPatch_idem: "applyPatch p (applyPatch p x) = applyPatch p x"
  by (auto simp: applyPatch_def split: option.splits)

lemma lowerPatch_patchOf: "lowerPatch (patchOf dp row)"
  by (simp add: lowerPatch_def patchOf_def toLowerCase_idem)

lemma lowerPatch_thenPatch: "lowerPatch p \<Longrightarrow> lowerPatch q \<Longrightarrow> lowerPatch (thenPatch p q)"
  by (auto simp: lowerPatch_def thenPatch_def split: option.splits)

lemma foldl_applyRow_patch:
  "rs \<noteq> [] \<Longrightarrow> \<exists>p. lowerPatch p \<and>
     (\<forall>x. foldl (\<lambda>y r. applyRow dp r y) x rs = applyPatch p (normalise x))"
proof (induction rs)
  case Nil
  then show ?case by simp
next
  case (Cons r rs)
  show ?case
  proof (cases "rs = []")
    case True
    then show ?thesis using lowerPatch_patchOf [of dp r] by (auto simp: applyRow_patch)
  next
    case False
    with Cons.IH obtain p where p: "lowerPatch p"
      and f: "\<And>x. foldl (\<lambda>y r. applyRow dp r y) x rs = applyPatch p (normalise x)"
      by blast
    have "\<forall>x. foldl (\<lambda>y r. applyRow dp r y) x (r # rs)
            = applyPatch (thenPatch (patchOf dp r) p) (normalise x)"
    proof
      fix x
      have "foldl (\<lambda>y r. applyRow dp r y) x (r # rs) = applyPatch p (normalise (applyRow dp r x))"
        by (simp add: f)
      also have "normalise (applyRow dp r x) = applyPatch (patchOf dp r) (normalise x)"
        by (simp add: applyRow_patch normalise_applyPatch lowerPatch_patchOf normalise_idem)
      finally show "foldl (\<lambda>y r. applyRow dp r y) x (r # rs)
            = applyPatch (thenPatch (patchOf dp r) p) (normalise x)"
        by (simp add: applyPatch_thenPatch)
    qed
    moreover have "lowerPatch (thenPatch (patchOf dp r) p)"
      using p by (simp add: lowerPatch_thenPatch lowerPatch_patchOf)
    ultimately show ?thesis by blast
  qed
qed

lemma foldl_applyRow_idem:
  "foldl (\<lambda>y r. applyRow dp r y) (foldl (\<lambda>y r. applyRow dp r y) x rs) rs
     = foldl (\<lambda>y r. applyRow dp r y) x rs"
proof (cases "rs = []")
  case True
  then show ?thesis by simp
next
  case False
  from foldl_applyRow_patch [OF False, of dp] obtain p where p: "lowerPatch p"
    and f: "\<And>x. foldl (\<lambda>y r. applyRow dp r y) x rs = applyPatch p (normalise x)"
    by blast
  show ?thesis
    by (simp add: f normalise_applyPatch [OF p] normalise_idem applyPatch_idem)
qed

lemma itemName_foldl_applyRow [simp]:
  "itemName (foldl (\<lambda>y r. applyRow dp r y) x rs) = itemName x"
  by (induction rs arbitrary: x) auto

lemma itemName_blankItem [simp]: "itemName (blankItem i n) = n"
  by (simp add: blankItem_def)

lemma run_Cons:
  "run dp rs (x # xs) i =
     (foldl (\<lambda>y r. applyRow dp r y) x (filter (\<lambda>r. rowName r = itemName x) rs)
        # fst (run dp (filter (\<lambda>r. rowName r \<noteq> itemName x) rs) xs i),
      snd (run dp (filter (\<lambda>r. rowName r \<noteq> itemName x) rs) xs i))"
proof (induction rs arbitrary: x xs i)
  case Nil
  then show ?case by simp
next
  case (Cons r rs)
  show ?case
  proof (cases "rowName r = itemName x")
    case True
    then show ?thesis using Cons [of "applyRow dp r x" xs i] by simp
  next
    case False
    then have "itemName x \<noteq> rowName r" by simp
    with False show ?thesis
      using Cons [of x "upsert dp r i xs" "if rowName r \<in> itemName ` set xs then i else Suc i"]
      by simp
  qed
qed

lemma run_idem:
  "run dp rs (fst (run dp rs xs i)) (snd (run dp rs xs i)) = run dp rs xs i"
proof (induction "length rs + length xs" arbitrary: rs xs i rule: less_induct)
  case less
  show ?case
  proof (cases xs)
    case (Cons x xs0)
    let ?A = "filter (\<lambda>r. rowName r = itemName x) rs"
    let ?B = "filter (\<lambda>r. rowName r \<noteq> itemName x) rs"
    have "length ?B + length xs0 < length rs + length xs"
      using Cons by (simp add: le_imp_less_Suc)
    from less [OF this, of i]
    have ih: "run dp ?B (fst (run dp ?B xs0 i)) (snd (run dp ?B xs0 i)) = run dp ?B xs0 i" .
    show ?thesis
      unfolding Cons
      by (simp add: run_Cons [of dp rs] ih foldl_applyRow_idem)
  next
    case Nil
    show ?thesis
    proof (cases rs)
      case Nil
      then show ?thesis by simp
    next
      case (Cons r rs0)
      let ?c = "createItem dp r i"
      let ?A = "filter (\<lambda>q. rowName q = rowName r) rs0"
      let ?B = "filter (\<lambda>q. rowName q \<noteq> rowName r) rs0"
      let ?F = "\<lambda>x. foldl (\<lambda>y r. applyRow dp r y) x (r # ?A)"
      have "length ?B \<le> length rs0" by simp
      then have "length ?B + length ([] :: item list) < length rs + length xs"
        unfolding Cons by (simp add: less_Suc_eq_le trans_le_add1)
      from less [OF this, of "Suc i"]
      have ih: "run dp ?B (fst (run dp ?B [] (Suc i))) (snd (run dp ?B [] (Suc i)))
                  = run dp ?B [] (Suc i)" .
      have first: "run dp rs xs i =
          (?F (blankItem i (rowName r)) # fst (run dp ?B [] (Suc i)), snd (run dp ?B [] (Suc i)))"
        unfolding Cons \<open>xs = []\<close>
        by (simp add: run_Cons [of dp rs0] createItem_blank)
      have idem: "?F (?F (blankItem i (rowName r))) = ?F (blankItem i (rowName r))"
        by (rule foldl_applyRow_idem)
      have "run dp rs (?F (blankItem i (rowName r)) # fst (run dp ?B [] (Suc i)))
               (snd (run dp ?B [] (Suc i)))
            = (?F (?F (blankItem i (rowName r))) # fst (run dp ?B [] (Suc i)),
               snd (run dp ?B [] (Suc i)))"
        unfolding Cons
        by (simp add: run_Cons [of dp "r # rs0"] ih del: run.simps foldl_Cons)
      with first idem show ?thesis by simp
    qed
  qed
qed

section \<open>Facts about aliases and renamed headers\<close>

text \<open>
  The first alias with a matching header decides, and the value is the cell under the
  first header that matches it.
\<close>


lemma getKey_Some_norm:
  "getKey row a = Some k \<Longrightarrow> trim (toLowerCase k) = trim (toLowerCase a)"
  by (auto simp: getKey_def dest!: find_Some_mem)

lemma getKey_Nil: "getKey [] a = None"
  by (simp add: getKey_def)

lemma getKey_Cons:
  "getKey ((k0, v0) # rest) a =
     (if trim (toLowerCase k0) = trim (toLowerCase a) then Some k0 else getKey rest a)"
  by (simp add: getKey_def)

lemma firstKey_first_match:
  assumes "\<forall>b\<in>set pre. getKey row b = None" and "getKey row a = Some k" and "k \<noteq> []"
  shows "firstKey row (pre @ a # post) = k"
  using assms by (induction pre) (auto simp: orKey_def)

lemma resolve_first_match:
  assumes "\<forall>b\<in>set pre. getKey row b = None" and "getKey row a = Some k" and "k \<noteq> []"
  shows "resolve row (pre @ a # post) = rowGet row k"
  using firstKey_first_match [OF assms] by (simp add: resolve_def)

lemma getKey_rename:
  assumes "\<forall>k\<in>fst ` set row. trim (toLowerCase (f k)) = trim (toLowerCase k)"
  shows "getKey (map (\<lambda>(k, v). (f k, v)) row) a = map_option f (getKey row a)"
  using assms by (induction row) (auto simp: getKey_Cons getKey_Nil)

lemma rowGet_rename:
  assumes "\<forall>k\<in>fst ` set row. trim (toLowerCase (f k)) = trim (toLowerCase k)"
    and "getKey row a = Some k"
  shows "rowGet (map (\<lambda>(k, v). (f k, v)) row) (f k) = rowGet row k"
  using assms
proof (induction row)
  case Nil
  then show ?case by (simp add: getKey_Nil)
next
  case (Cons e rest)
  obtain k0 v0 where e: "e = (k0, v0)" by (cases e)
  show ?case
  proof (cases "trim (toLowerCase k0) = trim (toLowerCase a)")
    case True
    with Cons.prems e have "k = k0" by (simp add: getKey_Cons)
    with e show ?thesis by (simp add: rowGet_def)
  next
    case False
    with Cons.prems e have g: "getKey rest a = Some k" by (simp add: getKey_Cons)
    then have n: "trim (toLowerCase k) = trim (toLowerCase a)" by (rule getKey_Some_norm)
    from g have "k \<in> fst ` set rest" by (rule getKey_Some_mem)
    with Cons.prems(1) have "trim (toLowerCase (f k)) = trim (toLowerCase k)" by force
    moreover from Cons.prems(1) e have "trim (toLowerCase (f k0)) = trim (toLowerCase k0)" by simp
    ultimately have "f k \<noteq> f k0" and "k \<noteq> k0" using n False by auto
    moreover from Cons.prems(1) have "\<forall>k\<in>fst ` set rest. trim (toLowerCase (f k)) = trim (toLowerCase k)"
      by simp
    from Cons.IH [OF this g] have "rowGet (map (\<lambda>(k, v). (f k, v)) rest) (f k) = rowGet rest k" .
    ultimately show ?thesis using e by (simp add: rowGet_def)
  qed
qed

text \<open>
  Renaming the headers of a row without changing their lower-cased, trimmed form does not
  change what a field resolves to, as long as no header is or becomes the empty string.
\<close>

lemma resolve_rename:
  assumes n: "\<forall>k\<in>fst ` set row. trim (toLowerCase (f k)) = trim (toLowerCase k)"
    and e: "\<forall>k\<in>fst ` set row. k \<noteq> [] \<and> f k \<noteq> []"
  shows "resolve (map (\<lambda>(k, v). (f k, v)) row) as = resolve row as"
proof -
  let ?row' = "map (\<lambda>(k, v). (f k, v)) row"
  have keys: "fst ` set ?row' = f ` fst ` set row" by force
  from e have e1: "rowGet row [] = None" by (auto simp: rowGet_None_iff)
  from e keys have e2: "rowGet ?row' [] = None" by (auto simp: rowGet_None_iff)
  have "(firstKey row as = [] \<and> firstKey ?row' as = []) \<or>
        (\<exists>a k. getKey row a = Some k \<and> firstKey row as = k \<and> firstKey ?row' as = f k)"
  proof (induction as)
    case Nil
    then show ?case by simp
  next
    case (Cons a as)
    show ?case
    proof (cases "getKey row a")
      case None
      with Cons show ?thesis by (simp add: getKey_rename [OF n] orKey_def)
    next
      case (Some k)
      then have "k \<in> fst ` set row" by (rule getKey_Some_mem)
      with e have "k \<noteq> []" and "f k \<noteq> []" by auto
      with Some show ?thesis by (auto simp: getKey_rename [OF n] orKey_def)
    qed
  qed
  then show ?thesis
  proof (elim disjE exE conjE)
    assume "firstKey row as = []" and "firstKey ?row' as = []"
    with e1 e2 show ?thesis by (simp add: resolve_def)
  next
    fix a k assume "getKey row a = Some k" and "firstKey row as = k" and "firstKey ?row' as = f k"
    with rowGet_rename [OF n, of a k] show ?thesis by (simp add: resolve_def)
  qed
qed

section \<open>Facts about the endpoints of the user interface\<close>

text \<open>
  The add and the edit endpoint hand the status of the body to the store as it is sent:
  the status \<open>New\<close> of the add form and the status \<open>CHECKED\<close> of the edit form are stored
  in these letters.
\<close>

lemma endpoints_store_status_as_sent:
  "POST_create noDates noFaults bodyNut stock = (Record 201 nut, \<lparr>items = [widget, nut], nextId = 3\<rparr>) \<and>
   b_status bodyNut = Some ''New'' \<and> status nut = ''New'' \<and>
   PUT noDates noFaults ''1'' bodyEdit stock
     = (Record 200 widgetEdited, \<lparr>items = [widgetEdited], nextId = 2\<rparr>) \<and>
   b_status bodyEdit = Some ''CHECKED'' \<and> status widgetEdited = ''CHECKED''"
  by code_simp

section \<open>Merging a row into an existing item\<close>

text \<open>
  Claim C1.  When a row matches an existing item by name and the store accepts the
  update, the item found under that name afterwards is the same item (same id), and its
  \<open>currentQuantity\<close> is the coerced quantity of the row when that is not \<open>0\<close>, and the
  quantity the item had before when the coercion gives \<open>0\<close>.  The coercion gives \<open>0\<close> for
  a missing quantity cell, for an empty one, and for every cell \<open>parseInt\<close> cannot read.
\<close>

theorem quantity_merge:
  assumes "truthy (itemNameRaw row)"
    and "findFirst flt s (toString (itemNameRaw row)) = Inr (Some x)"
    and "flt s (Update (item_id x) (updateData dp row x)) = None"
  shows "\<exists>s' y. importRow dp flt row s = Inr (Some s') \<and>
           List.find (\<lambda>y. itemName y = toString (itemNameRaw row)) (items s') = Some y \<and>
           item_id y = item_id x \<and>
           currentQuantity y = (if coerceQuantity row = Fin 0 then currentQuantity x
                                else coerceQuantity row) \<and>
           (currentQuantityRaw row = None \<longrightarrow> coerceQuantity row = Fin 0) \<and>
           (currentQuantityRaw row = Some (Str []) \<longrightarrow> coerceQuantity row = Fin 0) \<and>
           (parseInt (toString (currentQuantityRaw row)) = NaN \<longrightarrow> coerceQuantity row = Fin 0)"
proof -
  have a: "currentQuantityRaw row = None \<longrightarrow> coerceQuantity row = Fin 0"
    by (simp add: coerceQuantity_def toString_def parseInt_undefined orZero_def)
  have b: "currentQuantityRaw row = Some (Str []) \<longrightarrow> coerceQuantity row = Fin 0"
    by (simp add: coerceQuantity_def toString_def parseInt_empty orZero_def)
  have c: "parseInt (toString (currentQuantityRaw row)) = NaN \<longrightarrow> coerceQuantity row = Fin 0"
    by (simp add: coerceQuantity_def orZero_def)
  have d: "currentQuantity (setFields (updateData dp row x) x) =
            (if coerceQuantity row = Fin 0 then currentQuantity x else coerceQuantity row)"
    by (simp add: setFields_def updateData_def Let_def)
  from importRow_matching_find [OF assms] a b c d show ?thesis
    by (metis item_id_setFields)
qed

text \<open>
  The examples of the claim: a stock of 50 becomes 12 for a quantity cell of 12, and
  stays 50 for a row without a quantity cell and for a quantity cell of 0.
\<close>

theorem quantity_merge_witness:
  "(truthy (itemNameRaw rowQty12) \<and>
    findFirst noFaults stock (toString (itemNameRaw rowQty12)) = Inr (Some widget) \<and>
    noFaults stock (Update (item_id widget) (updateData noDates rowQty12 widget)) = None \<and>
    (\<exists>s' y. importRow noDates noFaults rowQty12 stock = Inr (Some s') \<and>
       List.find (\<lambda>y. itemName y = ''Widget'') (items s') = Some y \<and>
       currentQuantity y = Fin 12)) \<and>
   (truthy (itemNameRaw rowQtyBlank) \<and>
    findFirst noFaults stock (toString (itemNameRaw rowQtyBlank)) = Inr (Some widget) \<and>
    noFaults stock (Update (item_id widget) (updateData noDates rowQtyBlank widget)) = None \<and>
    (\<exists>s' y. importRow noDates noFaults rowQtyBlank stock = Inr (Some s') \<and>
       List.find (\<lambda>y. itemName y = ''Widget'') (items s') = Some y \<and>
       currentQuantity y = Fin 50)) \<and>
   (truthy (itemNameRaw rowQtyZero) \<and>
    findFirst noFaults stock (toString (itemNameRaw rowQtyZero)) = Inr (Some widget) \<and>
    noFaults stock (Update (item_id widget) (updateData noDates rowQtyZero widget)) = None \<and>
    (\<exists>s' y. importRow noDates noFaults rowQtyZero stock = Inr (Some s') \<and>
       List.find (\<lambda>y. itemName y = ''Widget'') (items s') = Some y \<and>
       currentQuantity y = Fin 50))"
proof -
  have n1: "toString (itemNameRaw rowQty12) = ''Widget''" by code_simp
  have n2: "toString (itemNameRaw rowQtyBlank) = ''Widget''" by code_simp
  have t1: "truthy (itemNameRaw rowQty12)" by code_simp
  have t2: "truthy (itemNameRaw rowQtyBlank)" by code_simp
  have n3: "toString (itemNameRaw rowQtyZero) = ''Widget''" by code_simp
  have t3: "truthy (itemNameRaw rowQtyZero)" by code_simp
  have f3: "findFirst noFaults stock (toString (itemNameRaw rowQtyZero)) = Inr (Some widget)"
    by code_simp
  have u3: "noFaults stock (Update (item_id widget) (updateData noDates rowQtyZero widget)) = None"
    by (simp add: noFaults_def)
  have q3: "coerceQuantity rowQtyZero = Fin 0" by code_simp
  have f1: "findFirst noFaults stock (toString (itemNameRaw rowQty12)) = Inr (Some widget)"
    by code_simp
  have f2: "findFirst noFaults stock (toString (itemNameRaw rowQtyBlank)) = Inr (Some widget)"
    by code_simp
  have u1: "noFaults stock (Update (item_id widget) (updateData noDates rowQty12 widget)) = None"
    by (simp add: noFaults_def)
  have u2: "noFaults stock (Update (item_id widget) (updateData noDates rowQtyBlank widget)) = None"
    by (simp add: noFaults_def)
  have q1: "coerceQuantity rowQty12 = Fin 12" by code_simp
  have q2: "coerceQuantity rowQtyBlank = Fin 0" by code_simp
  have w: "currentQuantity widget = Fin 50" by (simp add: widget_def)
  have r1: "\<exists>s' y. importRow noDates noFaults rowQty12 stock = Inr (Some s') \<and>
       List.find (\<lambda>y. itemName y = ''Widget'') (items s') = Some y \<and>
       currentQuantity y = Fin 12"
    using quantity_merge [OF t1 f1 u1] by (auto simp: n1 q1)
  have r2: "\<exists>s' y. importRow noDates noFaults rowQtyBlank stock = Inr (Some s') \<and>
       List.find (\<lambda>y. itemName y = ''Widget'') (items s') = Some y \<and>
       currentQuantity y = Fin 50"
    using quantity_merge [OF t2 f2 u2] by (auto simp: n2 q2 w)
  have r3: "\<exists>s' y. importRow noDates noFaults rowQtyZero stock = Inr (Some s') \<and>
       List.find (\<lambda>y. itemName y = ''Widget'') (items s') = Some y \<and>
       currentQuantity y = Fin 50"
    using quantity_merge [OF t3 f3 u3] by (auto simp: n3 q3 w)
  from t1 t2 t3 f1 f2 f3 u1 u2 u3 r1 r2 r3 show ?thesis by blast
qed

text \<open>
  Claim C2, as the route has it.  The test on the status cell is its truthiness, not its
  presence: the status of the matched item becomes the lower-cased text of the cell when
  the cell is truthy (a non-empty string, a number other than 0); for a missing, empty
  or zero cell it is the status the item had, lower-cased.
\<close>

theorem status_merge:
  assumes "truthy (itemNameRaw row)"
    and "findFirst flt s (toString (itemNameRaw row)) = Inr (Some x)"
    and "flt s (Update (item_id x) (updateData dp row x)) = None"
  shows "\<exists>s' y. importRow dp flt row s = Inr (Some s') \<and>
           List.find (\<lambda>y. itemName y = toString (itemNameRaw row)) (items s') = Some y \<and>
           item_id y = item_id x \<and>
           status y = (if truthy (statusRaw row) then toLowerCase (toString (statusRaw row))
                       else toLowerCase (status x))"
proof -
  have "status (setFields (updateData dp row x) x) =
          (if truthy (statusRaw row) then toLowerCase (toString (statusRaw row))
           else toLowerCase (status x))"
    by (simp add: setFields_def updateData_def Let_def)
  with importRow_matching_find [OF assms] show ?thesis
    by (metis item_id_setFields)
qed

theorem status_merge_witness:
  "truthy (itemNameRaw rowStatusNew) \<and>
   findFirst noFaults stock (toString (itemNameRaw rowStatusNew)) = Inr (Some widget) \<and>
   noFaults stock (Update (item_id widget) (updateData noDates rowStatusNew widget)) = None \<and>
   (\<exists>s' y. importRow noDates noFaults rowStatusNew stock = Inr (Some s') \<and>
      List.find (\<lambda>y. itemName y = ''Widget'') (items s') = Some y \<and>
      status y = ''new'')"
proof -
  have n: "toString (itemNameRaw rowStatusNew) = ''Widget''" by code_simp
  have t: "truthy (itemNameRaw rowStatusNew)" by code_simp
  have f: "findFirst noFaults stock (toString (itemNameRaw rowStatusNew)) = Inr (Some widget)"
    by code_simp
  have u: "noFaults stock (Update (item_id widget) (updateData noDates rowStatusNew widget)) = None"
    by (simp add: noFaults_def)
  have c: "truthy (statusRaw rowStatusNew)" by code_simp
  have l: "toLowerCase (toString (statusRaw rowStatusNew)) = ''new''" by code_simp
  have "\<exists>s' y. importRow noDates noFaults rowStatusNew stock = Inr (Some s') \<and>
      List.find (\<lambda>y. itemName y = ''Widget'') (items s') = Some y \<and>
      status y = ''new''"
    using status_merge [OF t f u] by (auto simp: n c l)
  with t f u show ?thesis by blast
qed

text \<open>
  The claim as stated fails on a status cell that is present and empty: the row carries a
  status cell under the header \<open>Status\<close>, and the status \<open>checked\<close> of the item is not
  replaced by the (empty) text of the cell.
\<close>

theorem status_presence_counterexample:
  "statusRaw [(''Item Name'', Str ''Widget''), (''Status'', Str '''')] = Some (Str '''') \<and>
   toLowerCase (toString (Some (Str ''''))) = '''' \<and>
   map status (items (snd (POST noDates noFaults
      (Sheet [[(''Item Name'', Str ''Widget''), (''Status'', Str '''')]]) stock))) = [''checked'']"
  by code_simp

text \<open>
  Claim C8.  The expiry date of the matched item is replaced only by a valid date of the
  row; with an expiry cell that is missing, or that the date parser rejects, or whose
  date is invalid, the item keeps the expiry date it had.
\<close>

theorem expiry_merge:
  assumes "truthy (itemNameRaw row)"
    and "findFirst flt s (toString (itemNameRaw row)) = Inr (Some x)"
    and "flt s (Update (item_id x) (updateData dp row x)) = None"
  shows "\<exists>s' y. importRow dp flt row s = Inr (Some s') \<and>
           List.find (\<lambda>y. itemName y = toString (itemNameRaw row)) (items s') = Some y \<and>
           item_id y = item_id x \<and>
           expiryDate y = (if validDate (expiryDateOf dp row) then expiryDateOf dp row
                           else expiryDate x) \<and>
           (expiryDate y \<noteq> expiryDate x \<longrightarrow> validDate (expiryDateOf dp row)) \<and>
           (expiryDateRaw row = None \<longrightarrow> expiryDate y = expiryDate x) \<and>
           (\<forall>t. expiryDateRaw row = Some (Str t) \<and> dp t = InvalidDate \<longrightarrow> expiryDate y = expiryDate x) \<and>
           (expiryDateOf dp row = Some InvalidDate \<longrightarrow> expiryDate y = expiryDate x)"
proof -
  let ?y = "setFields (updateData dp row x) x"
  have e: "expiryDate ?y = (if validDate (expiryDateOf dp row) then expiryDateOf dp row
                            else expiryDate x)"
    by (simp add: setFields_def updateData_def Let_def)
  have a: "expiryDateRaw row = None \<longrightarrow> \<not> validDate (expiryDateOf dp row)"
    by (simp add: expiryDateOf_def truthy_def validDate_def)
  have b: "\<forall>t. expiryDateRaw row = Some (Str t) \<and> dp t = InvalidDate \<longrightarrow> \<not> validDate (expiryDateOf dp row)"
    by (simp add: expiryDateOf_def truthy_def validDate_def toString_def)
  have c: "expiryDateOf dp row = Some InvalidDate \<longrightarrow> \<not> validDate (expiryDateOf dp row)"
    by (simp add: validDate_def)
  from importRow_matching_find [OF assms] obtain s' where
    s': "importRow dp flt row s = Inr (Some s')"
        "List.find (\<lambda>y. itemName y = toString (itemNameRaw row)) (items s') = Some ?y"
    by blast
  have "item_id ?y = item_id x" by simp
  with s' e a b c show ?thesis by auto
qed

text \<open>The example of the claim: the expiry date 2025-01-01 survives the cell \<open>soon\<close>.\<close>

theorem expiry_merge_witness:
  "truthy (itemNameRaw rowExpiryBad) \<and>
   findFirst noFaults stock (toString (itemNameRaw rowExpiryBad)) = Inr (Some widget) \<and>
   noFaults stock (Update (item_id widget) (updateData noDates rowExpiryBad widget)) = None \<and>
   expiryDateRaw rowExpiryBad = Some (Str ''soon'') \<and> noDates ''soon'' = InvalidDate \<and>
   (\<exists>s' y. importRow noDates noFaults rowExpiryBad stock = Inr (Some s') \<and>
      List.find (\<lambda>y. itemName y = ''Widget'') (items s') = Some y \<and>
      expiryDate y = Some (Time 1735689600000))"
proof -
  have n: "toString (itemNameRaw rowExpiryBad) = ''Widget''" by code_simp
  have t: "truthy (itemNameRaw rowExpiryBad)" by code_simp
  have f: "findFirst noFaults stock (toString (itemNameRaw rowExpiryBad)) = Inr (Some widget)"
    by code_simp
  have u: "noFaults stock (Update (item_id widget) (updateData noDates rowExpiryBad widget)) = None"
    by (simp add: noFaults_def)
  have r: "expiryDateRaw rowExpiryBad = Some (Str ''soon'')" by code_simp
  have d: "noDates ''soon'' = InvalidDate" by (simp add: noDates_def)
  have w: "expiryDate widget = Some (Time 1735689600000)" by (simp add: widget_def)
  have "\<exists>s' y. importRow noDates noFaults rowExpiryBad stock = Inr (Some s') \<and>
      List.find (\<lambda>y. itemName y = ''Widget'') (items s') = Some y \<and>
      expiryDate y = Some (Time 1735689600000)"
    using expiry_merge [OF t f u] r d by (auto simp: n w)
  with t f u r d show ?thesis by blast
qed

section \<open>Creating an item from a row\<close>

text \<open>
  Claim C7, as the route has it.  A row whose name is not in the store, and whose
  creation the store accepts, appends one item with the next id: price and quantity as
  coerced (zero included), the unit as text when the unit cell is truthy and empty
  otherwise, the expiry date when it is valid and null otherwise, and as status the
  lower-cased text of the status cell when that cell is truthy, \<open>not yet\<close> when it is
  missing, empty or the number 0.
\<close>

theorem create_new:
  assumes "truthy (itemNameRaw row)"
    and "findFirst flt s (toString (itemNameRaw row)) = Inr None"
    and "flt s (Create (toString (itemNameRaw row)) (createData dp row)) = None"
  shows "\<exists>y. importRow dp flt row s = Inr (Some \<lparr>items = items s @ [y], nextId = Suc (nextId s)\<rparr>) \<and>
           itemName y = toString (itemNameRaw row) \<and> item_id y = nextId s \<and>
           sellingPrice y = coercePrice row \<and>
           currentQuantity y = coerceQuantity row \<and>
           unitType y = Some (if truthy (unitTypeRaw row) then toString (unitTypeRaw row) else []) \<and>
           expiryDate y = (if validDate (expiryDateOf dp row) then expiryDateOf dp row else None) \<and>
           status y = toLowerCase (if truthy (statusRaw row) then toString (statusRaw row)
                                   else ''not yet'')"
  using assms
  by (simp add: importRow_def create_def newItem_def createData_def coerceStatus_def)

text \<open>
  The example of the claim: the cells \<open>19.99\<close> and \<open>3\<close> give the price 19.99, the
  quantity 3 and the status \<open>not yet\<close>.
\<close>

theorem create_new_witness:
  "truthy (itemNameRaw rowGadget) \<and>
   findFirst noFaults stock (toString (itemNameRaw rowGadget)) = Inr None \<and>
   noFaults stock (Create (toString (itemNameRaw rowGadget)) (createData noDates rowGadget)) = None \<and>
   (\<exists>y. importRow noDates noFaults rowGadget stock = Inr (Some \<lparr>items = items stock @ [y], nextId = 3\<rparr>) \<and>
      itemName y = ''Gadget'' \<and> sellingPrice y = Fin (1999 / 100) \<and>
      currentQuantity y = Fin 3 \<and> status y = ''not yet'')"
proof -
  have n: "toString (itemNameRaw rowGadget) = ''Gadget''" by code_simp
  have t: "truthy (itemNameRaw rowGadget)" by code_simp
  have f: "findFirst noFaults stock (toString (itemNameRaw rowGadget)) = Inr None"
    by code_simp
  have u: "noFaults stock (Create (toString (itemNameRaw rowGadget)) (createData noDates rowGadget)) = None"
    by (simp add: noFaults_def)
  have p: "coercePrice rowGadget = Fin (1999 / 100)" by code_simp
  have q: "coerceQuantity rowGadget = Fin 3" by code_simp
  have c: "\<not> truthy (statusRaw rowGadget)" by code_simp
  have l: "toLowerCase ''not yet'' = ''not yet''" by code_simp
  have i: "Suc (nextId stock) = 3" by (simp add: stock_def)
  have "\<exists>y. importRow noDates noFaults rowGadget stock = Inr (Some \<lparr>items = items stock @ [y], nextId = 3\<rparr>) \<and>
      itemName y = ''Gadget'' \<and> sellingPrice y = Fin (1999 / 100) \<and>
      currentQuantity y = Fin 3 \<and> status y = ''not yet''"
    using create_new [OF t f u] by (auto simp: n p q c l i)
  with t f u show ?thesis by blast
qed

text \<open>
  The claim as stated fails on a status cell that is present and falsy: the cell holds
  the number 0, whose text is \<open>0\<close>, and the new item gets the status \<open>not yet\<close>.
\<close>

theorem create_status_counterexample:
  "statusRaw [(''Item Name'', Str ''Bolt''), (''Status'', Num 0)] = Some (Num 0) \<and>
   toLowerCase (toString (Some (Num 0))) = ''0'' \<and>
   map status (items (snd (POST noDates noFaults
      (Sheet [[(''Item Name'', Str ''Bolt''), (''Status'', Num 0)]]) stock)))
     = [''checked'', ''not yet'']"
  by code_simp

section \<open>Date serials\<close>




section \<open>Skipped rows\<close>

text \<open>
  Claim C4, as the route has it.  The skip test is the truthiness of the value read for
  the item name.  In a row without a header that is the empty string, the row is skipped
  exactly when no header matches \<open>item name\<close> or \<open>itemname\<close>, or the cell read is the
  empty string or the number 0.  A skipped row leaves the counter and the store as they
  are; any other row is written and counted when the store accepts its calls.
\<close>

theorem row_skipped:
  assumes "rowGet row [] = None"
  shows "((importRow dp flt row s = Inr None) =
            ((getKey row ''item name'' = None \<and> getKey row ''itemname'' = None) \<or>
             itemNameRaw row = Some (Str []) \<or> itemNameRaw row = Some (Num 0))) \<and>
         (importRow dp flt row s = Inr None \<longrightarrow>
            importRows dp flt (row # rows) s c = importRows dp flt rows s c) \<and>
         (importRow dp flt row s \<noteq> Inr None \<longrightarrow> (\<forall>t r. flt t r = None) \<longrightarrow>
            (\<exists>s'. importRow dp flt row s = Inr (Some s') \<and>
                  importRows dp flt (row # rows) s c = importRows dp flt rows s' (Suc c)))"
proof -
  have "(itemNameRaw row = None) = (getKey row ''item name'' = None \<and> getKey row ''itemname'' = None)"
    using resolve_None_iff [OF assms, of itemNameAliases]
    by (simp add: itemNameRaw_def itemNameAliases_def)
  then have a: "(importRow dp flt row s = Inr None) =
            ((getKey row ''item name'' = None \<and> getKey row ''itemname'' = None) \<or>
             itemNameRaw row = Some (Str []) \<or> itemNameRaw row = Some (Num 0))"
    by (simp add: importRow_skip_iff not_truthy_iff)
  have b: "importRow dp flt row s = Inr None \<longrightarrow>
            importRows dp flt (row # rows) s c = importRows dp flt rows s c"
    by simp
  have c: "importRow dp flt row s \<noteq> Inr None \<longrightarrow> (\<forall>t r. flt t r = None) \<longrightarrow>
            (\<exists>s'. importRow dp flt row s = Inr (Some s') \<and>
                  importRows dp flt (row # rows) s c = importRows dp flt rows s' (Suc c))"
  proof (intro impI)
    assume "importRow dp flt row s \<noteq> Inr None" and f: "\<forall>t r. flt t r = None"
    then have "truthy (itemNameRaw row)" by (simp add: importRow_skip_iff)
    from importRow_noFaults [OF this f] obtain s' where "importRow dp flt row s = Inr (Some s')"
      by blast
    then show "\<exists>s'. importRow dp flt row s = Inr (Some s') \<and>
                  importRows dp flt (row # rows) s c = importRows dp flt rows s' (Suc c)"
      by simp
  qed
  from a b c show ?thesis by blast
qed

text \<open>
  A row without a name column is skipped, and the row after it is the first one counted;
  a row with a name is written.
\<close>

theorem row_skipped_witness:
  "(rowGet rowNoName [] = None \<and>
    getKey rowNoName ''item name'' = None \<and> getKey rowNoName ''itemname'' = None \<and>
    importRow noDates noFaults rowNoName stock = Inr None \<and>
    importRows noDates noFaults (rowNoName # [rowQty12]) stock 0
      = importRows noDates noFaults [rowQty12] stock 0) \<and>
   (rowGet rowQty12 [] = None \<and> importRow noDates noFaults rowQty12 stock \<noteq> Inr None \<and>
    (\<forall>t r. noFaults t r = None) \<and>
    (\<exists>s'. importRow noDates noFaults rowQty12 stock = Inr (Some s') \<and>
          importRows noDates noFaults (rowQty12 # []) stock 0
            = importRows noDates noFaults [] s' (Suc 0)))"
proof -
  have h1: "rowGet rowNoName [] = None" by code_simp
  have k1: "getKey rowNoName ''item name'' = None" by code_simp
  have k2: "getKey rowNoName ''itemname'' = None" by code_simp
  have h2: "rowGet rowQty12 [] = None" by code_simp
  have k3: "getKey rowQty12 ''item name'' \<noteq> None" by code_simp
  have v: "itemNameRaw rowQty12 = Some (Str ''Widget'')" by code_simp
  have nf: "\<forall>t r. noFaults t r = None" by (simp add: noFaults_def)
  note a = row_skipped [OF h1, of noDates noFaults stock "[rowQty12]" 0]
  note b = row_skipped [OF h2, of noDates noFaults stock "[]" 0]
  from a k1 k2 have s1: "importRow noDates noFaults rowNoName stock = Inr None" by blast
  with a have s2: "importRows noDates noFaults (rowNoName # [rowQty12]) stock 0
      = importRows noDates noFaults [rowQty12] stock 0" by blast
  from b k3 v have p1: "importRow noDates noFaults rowQty12 stock \<noteq> Inr None" by simp
  with b nf have p2: "\<exists>s'. importRow noDates noFaults rowQty12 stock = Inr (Some s') \<and>
          importRows noDates noFaults (rowQty12 # []) stock 0
            = importRows noDates noFaults [] s' (Suc 0)" by blast
  from h1 k1 k2 s1 s2 h2 p1 nf p2 show ?thesis by blast
qed

text \<open>
  The claim as stated fails on a name cell that holds the number 0: a value is resolved
  under the header \<open>Item Name\<close>, and the row is skipped without being counted.
\<close>

theorem zero_name_counterexample:
  "itemNameRaw [(''Item Name'', Num 0), (''Quantity'', Num 4)] = Some (Num 0) \<and>
   importRow noDates noFaults [(''Item Name'', Num 0), (''Quantity'', Num 4)] stock = Inr None \<and>
   POST noDates noFaults (Sheet [[(''Item Name'', Num 0), (''Quantity'', Num 4)]]) stock
     = (Success ''Processed 0 items successfully'' 0, stock)"
  by code_simp

section \<open>The count and the first exception\<close>

text \<open>
  Claim C6.  A successful import answers with the number of rows that passed the name
  test of the loop (a truthy item name), whether they created or updated an item.  When
  the rows \<open>pre\<close> are processed and the next row \<open>r\<close> throws \<open>e\<close>, the answer is the
  single error response with status 500, the store is the one the rows \<open>pre\<close> left, and
  the rows \<open>post\<close> after \<open>r\<close> play no part.  When no call of the store throws, the import
  succeeds.
\<close>

theorem import_count_and_abort:
  "(POST dp flt (Sheet rows) s = (Success m n, s') \<longrightarrow>
      n = length (filter (\<lambda>r. truthy (itemNameRaw r)) rows) \<and>
      importRows dp flt rows s 0 = (Inr n, s')) \<and>
   (importRows dp flt pre s 0 = (Inr k, t) \<and> importRow dp flt r t = Inl e \<longrightarrow>
      POST dp flt (Sheet (pre @ r # post)) s = (Failure 500 (''Failed to import data: '' @ e), t)) \<and>
   ((\<forall>t r. flt t r = None) \<longrightarrow>
      (\<exists>m' s''. POST dp flt (Sheet rows) s =
         (Success m' (length (filter (\<lambda>r. truthy (itemNameRaw r)) rows)), s'')))"
proof (intro conjI impI)
  assume a: "POST dp flt (Sheet rows) s = (Success m n, s')"
  then show b: "importRows dp flt rows s 0 = (Inr n, s')"
    by (auto simp: POST_def split: prod.splits sum.splits)
  from importRows_count [OF b] show "n = length (filter (\<lambda>r. truthy (itemNameRaw r)) rows)"
    by simp
next
  assume "importRows dp flt pre s 0 = (Inr k, t) \<and> importRow dp flt r t = Inl e"
  then show "POST dp flt (Sheet (pre @ r # post)) s = (Failure 500 (''Failed to import data: '' @ e), t)"
    by (simp add: POST_def importRows_append)
next
  assume f: "\<forall>t r. flt t r = None"
  from importRows_noFaults [OF f, of dp rows s 0] obtain n s'' where
    r: "importRows dp flt rows s 0 = (Inr n, s'')" by blast
  from importRows_count [OF r] r
  show "\<exists>m' s''. POST dp flt (Sheet rows) s =
         (Success m' (length (filter (\<lambda>r. truthy (itemNameRaw r)) rows)), s'')"
    by (simp add: POST_def)
qed

text \<open>
  Three rows of which one is skipped are counted as 2.  With a store that rejects the
  creation of \<open>Gadget\<close>, the update of the row before it stays (the quantity is 12), the
  row after it is not processed (the status is still \<open>checked\<close>), and the answer is the
  error.
\<close>

theorem import_count_and_abort_witness:
  "(POST noDates noFaults (Sheet [rowNoName, rowQty12]) stock
      = (Success ''Processed 1 items successfully'' 1, stock12) \<and>
    (1 :: nat) = length (filter (\<lambda>r. truthy (itemNameRaw r)) [rowNoName, rowQty12])) \<and>
   (importRows noDates rejectGadget [rowNoName, rowQty12] stock 0 = (Inr 1, stock12) \<and>
    importRow noDates rejectGadget rowGadget stock12 = Inl ''Invalid value'' \<and>
    POST noDates rejectGadget (Sheet ([rowNoName, rowQty12] @ rowGadget # [rowStatusNew])) stock
      = (Failure 500 ''Failed to import data: Invalid value'', stock12) \<and>
    map currentQuantity (items stock12) = [Fin 12] \<and>
    map status (items stock12) = [''checked'']) \<and>
   ((\<forall>t r. noFaults t r = None) \<and>
    (\<exists>m' s''. POST noDates noFaults (Sheet [rowNoName, rowQty12]) stock = (Success m' 1, s'')))"
proof -
  let ?rows = "[rowNoName, rowQty12]"
  have a2: "POST noDates noFaults (Sheet ?rows) stock
      = (Success ''Processed 1 items successfully'' 1, stock12)"
    by code_simp
  note inst1 = import_count_and_abort [where dp = noDates and flt = noFaults and rows = ?rows
      and s = stock and m = "''Processed 1 items successfully''" and n = 1 and s' = stock12]
  from inst1 a2 have a3: "(1 :: nat) = length (filter (\<lambda>r. truthy (itemNameRaw r)) ?rows)"
    by blast
  have b2: "importRows noDates rejectGadget ?rows stock 0 = (Inr 1, stock12)"
    by code_simp
  have b3: "importRow noDates rejectGadget rowGadget stock12 = Inl ''Invalid value''"
    by code_simp
  note inst2 = import_count_and_abort [where dp = noDates and flt = rejectGadget and pre = ?rows
      and s = stock and k = 1 and t = stock12 and r = rowGadget and e = "''Invalid value''"
      and post = "[rowStatusNew]"]
  from inst2 b2 b3 have b4: "POST noDates rejectGadget (Sheet (?rows @ rowGadget # [rowStatusNew])) stock
      = (Failure 500 (''Failed to import data: '' @ ''Invalid value''), stock12)"
    by blast
  have b5: "map currentQuantity (items stock12) = [Fin 12]" by (simp add: stock12_def)
  have b6: "map status (items stock12) = [''checked'']" by (simp add: stock12_def widget_def)
  have c1: "\<forall>t r. noFaults t r = None" by (simp add: noFaults_def)
  from inst1 c1 a3 have c2: "\<exists>m' s''. POST noDates noFaults (Sheet ?rows) stock = (Success m' 1, s'')"
    by simp
  from a2 a3 b2 b3 b4 b5 b6 c1 c2 show ?thesis by simp
qed

section \<open>What the import stores\<close>

text \<open>
  Claim C3, as the code has it.  A row of an import that creates an item stores a
  lower-case status and the coerced price and quantity.  A row that updates an item
  stores a lower-case status and the coerced price, and as quantity the coerced quantity,
  or, when that is 0, the quantity the item found under the name of the row had before;
  this holds for the item found under that name afterwards and for every record of the
  store that the row changed.  A price or quantity cell that is missing or cannot be
  parsed coerces to 0, and a coerced number is never \<open>NaN\<close>.  Nothing makes the numbers
  non-negative.
\<close>

theorem write_paths:
  "(List.find (\<lambda>x. itemName x = toString (itemNameRaw row)) (items s) = None \<and>
    importRow dp flt row s = Inr (Some s') \<longrightarrow>
      (\<exists>y. items s' = items s @ [y] \<and> toLowerCase (status y) = status y \<and>
            sellingPrice y = coercePrice row \<and> currentQuantity y = coerceQuantity row)) \<and>
   (List.find (\<lambda>x. itemName x = toString (itemNameRaw row)) (items s) = Some x \<and>
    importRow dp flt row s = Inr (Some s') \<longrightarrow>
      (\<exists>y. List.find (\<lambda>y. itemName y = toString (itemNameRaw row)) (items s') = Some y \<and>
            item_id y = item_id x \<and>
            toLowerCase (status y) = status y \<and> sellingPrice y = coercePrice row \<and>
            currentQuantity y = (if coerceQuantity row = Fin 0 then currentQuantity x
                                 else coerceQuantity row)) \<and>
      (\<forall>y\<in>set (items s'). y \<in> set (items s) \<or>
            toLowerCase (status y) = status y \<and> sellingPrice y = coercePrice row \<and>
            currentQuantity y = (if coerceQuantity row = Fin 0 then currentQuantity x
                                 else coerceQuantity row))) \<and>
   (parseFloat (toString (sellingPriceRaw row)) = NaN \<longrightarrow> coercePrice row = Fin 0) \<and>
   (sellingPriceRaw row = None \<longrightarrow> coercePrice row = Fin 0) \<and>
   (parseInt (toString (currentQuantityRaw row)) = NaN \<longrightarrow> coerceQuantity row = Fin 0) \<and>
   (currentQuantityRaw row = None \<longrightarrow> coerceQuantity row = Fin 0) \<and>
   coercePrice row \<noteq> NaN \<and> coerceQuantity row \<noteq> NaN"
proof (intro conjI impI)
  assume "List.find (\<lambda>x. itemName x = toString (itemNameRaw row)) (items s) = None \<and>
    importRow dp flt row s = Inr (Some s')"
  then show "\<exists>y. items s' = items s @ [y] \<and> toLowerCase (status y) = status y \<and>
            sellingPrice y = coercePrice row \<and> currentQuantity y = coerceQuantity row"
    using importRow_created [of row s dp flt s'] by blast
next
  assume a: "List.find (\<lambda>x. itemName x = toString (itemNameRaw row)) (items s) = Some x \<and>
    importRow dp flt row s = Inr (Some s')"
  then show "\<exists>y. List.find (\<lambda>y. itemName y = toString (itemNameRaw row)) (items s') = Some y \<and>
            item_id y = item_id x \<and>
            toLowerCase (status y) = status y \<and> sellingPrice y = coercePrice row \<and>
            currentQuantity y = (if coerceQuantity row = Fin 0 then currentQuantity x
                                 else coerceQuantity row)"
    using importRow_updated [of row s x dp flt s'] by blast
  from a show "\<forall>y\<in>set (items s'). y \<in> set (items s) \<or>
            toLowerCase (status y) = status y \<and> sellingPrice y = coercePrice row \<and>
            currentQuantity y = (if coerceQuantity row = Fin 0 then currentQuantity x
                                 else coerceQuantity row)"
    using importRow_updated [of row s x dp flt s'] by blast
next
  assume "parseFloat (toString (sellingPriceRaw row)) = NaN"
  then show "coercePrice row = Fin 0" by (simp add: coercePrice_def orZero_def)
next
  assume "sellingPriceRaw row = None"
  then show "coercePrice row = Fin 0"
    by (simp add: coercePrice_def toString_def parseFloat_undefined orZero_def)
next
  assume "parseInt (toString (currentQuantityRaw row)) = NaN"
  then show "coerceQuantity row = Fin 0" by (simp add: coerceQuantity_def orZero_def)
next
  assume "currentQuantityRaw row = None"
  then show "coerceQuantity row = Fin 0"
    by (simp add: coerceQuantity_def toString_def parseInt_undefined orZero_def)
next
  show "coercePrice row \<noteq> NaN" by (simp add: coercePrice_def orZero_not_NaN)
  show "coerceQuantity row \<noteq> NaN" by (simp add: coerceQuantity_def orZero_not_NaN)
qed

text \<open>
  An import that creates \<open>Gadget\<close>; an import whose quantity cell is 0 and that leaves
  the 50 of \<open>Widget\<close>, with a price of 0 for the missing price cell; a row without a
  quantity cell.
\<close>

theorem write_paths_witness:
  "(List.find (\<lambda>x. itemName x = toString (itemNameRaw rowGadget)) (items stock) = None \<and>
    importRow noDates noFaults rowGadget stock = Inr (Some stockGadget) \<and>
    (\<exists>y. items stockGadget = items stock @ [y] \<and> toLowerCase (status y) = status y \<and>
          sellingPrice y = Fin (1999 / 100) \<and> currentQuantity y = Fin 3)) \<and>
   (List.find (\<lambda>x. itemName x = toString (itemNameRaw rowQtyZero)) (items stock) = Some widget \<and>
    importRow noDates noFaults rowQtyZero stock = Inr (Some stockZero) \<and>
    widgetZero \<in> set (items stockZero) \<and> widgetZero \<notin> set (items stock) \<and>
    sellingPriceRaw rowQtyZero = None \<and> parseFloat (toString (sellingPriceRaw rowQtyZero)) = NaN \<and>
    sellingPrice widgetZero = Fin 0 \<and> currentQuantity widgetZero = Fin 50 \<and>
    (\<exists>y. List.find (\<lambda>y. itemName y = toString (itemNameRaw rowQtyZero)) (items stockZero) = Some y \<and>
          item_id y = item_id widget \<and> toLowerCase (status y) = status y \<and>
          sellingPrice y = Fin 0 \<and> currentQuantity y = Fin 50)) \<and>
   (currentQuantityRaw rowQtyBlank = None \<and> parseInt (toString (currentQuantityRaw rowQtyBlank)) = NaN \<and>
    coerceQuantity rowQtyBlank = Fin 0)"
proof -
  note inst1 = write_paths [where dp = noDates and flt = noFaults and s = stock
      and row = rowGadget and s' = stockGadget]
  note inst2 = write_paths [where dp = noDates and flt = noFaults and s = stock
      and row = rowQtyZero and s' = stockZero and x = widget]
  note inst3 = write_paths [where row = rowQtyBlank]
  have g1: "List.find (\<lambda>x. itemName x = toString (itemNameRaw rowGadget)) (items stock) = None"
    by code_simp
  have g2: "importRow noDates noFaults rowGadget stock = Inr (Some stockGadget)" by code_simp
  have g3: "coercePrice rowGadget = Fin (1999 / 100)" by code_simp
  have g4: "coerceQuantity rowGadget = Fin 3" by code_simp
  from inst1 g1 g2 have g5: "\<exists>y. items stockGadget = items stock @ [y] \<and>
          toLowerCase (status y) = status y \<and>
          sellingPrice y = Fin (1999 / 100) \<and> currentQuantity y = Fin 3"
    unfolding g3 g4 by blast
  have z1: "List.find (\<lambda>x. itemName x = toString (itemNameRaw rowQtyZero)) (items stock) = Some widget"
    by code_simp
  have z2: "importRow noDates noFaults rowQtyZero stock = Inr (Some stockZero)" by code_simp
  have z3: "widgetZero \<in> set (items stockZero)" by (simp add: stockZero_def)
  have z4: "widgetZero \<notin> set (items stock)" by (simp add: stock_def widgetZero_def widget_def)
  have z5: "sellingPriceRaw rowQtyZero = None" by code_simp
  have z6: "parseFloat (toString (sellingPriceRaw rowQtyZero)) = NaN" by code_simp
  have z7: "coerceQuantity rowQtyZero = Fin 0" by code_simp
  have w: "currentQuantity widget = Fin 50" by (simp add: widget_def)
  from inst2 z5 have z8: "coercePrice rowQtyZero = Fin 0" by blast
  from inst2 z1 z2 z3 z4 have "sellingPrice widgetZero = coercePrice rowQtyZero \<and>
      currentQuantity widgetZero = (if coerceQuantity rowQtyZero = Fin 0 then currentQuantity widget
                                    else coerceQuantity rowQtyZero)"
    by blast
  then have z9: "sellingPrice widgetZero = Fin 0 \<and> currentQuantity widgetZero = Fin 50"
    by (simp add: z7 z8 w)
  from inst2 z1 z2 have z10: "\<exists>y. List.find (\<lambda>y. itemName y = toString (itemNameRaw rowQtyZero)) (items stockZero) = Some y \<and>
          item_id y = item_id widget \<and> toLowerCase (status y) = status y \<and>
          sellingPrice y = Fin 0 \<and> currentQuantity y = Fin 50"
    unfolding z7 z8 by (simp add: w)
  have q1: "currentQuantityRaw rowQtyBlank = None" by code_simp
  have q2: "parseInt (toString (currentQuantityRaw rowQtyBlank)) = NaN" by code_simp
  from inst3 q2 have q3: "coerceQuantity rowQtyBlank = Fin 0" by blast
  from g1 g2 g5 z1 z2 z3 z4 z5 z6 z9 z10 q1 q2 q3 show ?thesis by blast
qed

text \<open>
  The claim as stated fails on a negative cell: the import stores the quantity -5 and
  the price -1.5 of the row as they are.
\<close>

theorem negative_quantity_counterexample:
  "POST noDates noFaults
     (Sheet [[(''Item Name'', Str ''Bolt''), (''Price'', Str ''-1.5''), (''Quantity'', Str ''-5'')]])
     \<lparr>items = [], nextId = 1\<rparr>
     = (Success ''Processed 1 items successfully'' 1,
        \<lparr>items = [\<lparr>sellingPrice = Fin (- (3 / 2)), currentQuantity = Fin (- 5),
                    unitType = Some [], expiryDate = None, status = ''not yet'',
                    item_id = 1, itemName = ''Bolt'', soldQuantity = 0\<rparr>],
          nextId = 2\<rparr>) \<and>
   \<not> nonNegative (Fin (- 5)) \<and> \<not> nonNegative (Fin (- (3 / 2)))"
  by code_simp

section \<open>Importing a sheet twice\<close>

text \<open>
  Claim C10.  On a well-formed store (unique ids, all below the next id) whose calls do
  not throw, the import of a sheet succeeds with some count and leaves some store; the
  import of the same sheet into that store succeeds with the same message and count and
  leaves that store as it is.
\<close>

theorem import_idempotent:
  assumes "wellFormed s"
  shows "\<exists>m n s1. POST dp noFaults (Sheet rows) s = (Success m n, s1) \<and>
                   POST dp noFaults (Sheet rows) s1 = (Success m n, s1)"
proof -
  let ?named = "filter (\<lambda>r. truthy (itemNameRaw r)) rows"
  let ?R = "run dp ?named (items s) (nextId s)"
  let ?s1 = "\<lparr>items = fst ?R, nextId = snd ?R\<rparr>"
  let ?n = "length ?named"
  from importRows_run [OF assms, of dp rows 0]
  have one: "importRows dp noFaults rows s 0 = (Inr ?n, ?s1)" and wf: "wellFormed ?s1"
    by simp_all
  from importRows_run [OF wf, of dp rows 0]
  have "importRows dp noFaults rows ?s1 0 =
          (Inr ?n, \<lparr>items = fst (run dp ?named (fst ?R) (snd ?R)),
                    nextId = snd (run dp ?named (fst ?R) (snd ?R))\<rparr>)"
    by simp
  then have two: "importRows dp noFaults rows ?s1 0 = (Inr ?n, ?s1)"
    by (simp add: run_idem)
  from one two show ?thesis by (simp add: POST_def)
qed

text \<open>
  Three rows, of which two update \<open>Widget\<close> and one creates \<open>Gadget\<close>, imported into the
  example store and then into the store that results.
\<close>

theorem import_idempotent_witness:
  "wellFormed stock \<and>
   POST noDates noFaults (Sheet [rowQty12, rowGadget, rowQtyZero]) stock
     = (Success ''Processed 3 items successfully'' 3, stockTwice) \<and>
   POST noDates noFaults (Sheet [rowQty12, rowGadget, rowQtyZero]) stockTwice
     = (Success ''Processed 3 items successfully'' 3, stockTwice)"
proof -
  have w: "wellFormed stock" by (simp add: wellFormed_def stock_def widget_def)
  have one: "POST noDates noFaults (Sheet [rowQty12, rowGadget, rowQtyZero]) stock
     = (Success ''Processed 3 items successfully'' 3, stockTwice)"
    by code_simp
  from import_idempotent [OF w, of noDates "[rowQty12, rowGadget, rowQtyZero]"] one
  have "POST noDates noFaults (Sheet [rowQty12, rowGadget, rowQtyZero]) stockTwice
     = (Success ''Processed 3 items successfully'' 3, stockTwice)"
    by simp
  with w one show ?thesis by simp
qed

section \<open>The empty header\<close>

text \<open>
  Claim C5 says that a field is absent when none of its aliases matches a header, and
  that resolution does not depend on the case or the surrounding white space of a
  header.  The lemmas \<open>resolve_first_match\<close>, \<open>resolve_None_iff\<close> and \<open>resolve_rename\<close>
  show this for rows without a header that is the empty string.  With such a header the
  route does otherwise: the chain of aliases ends in the key \<open>''\<close>, so when no alias
  matches, \<open>row['']\<close> is read.  In the row below no header matches an alias of the item
  name, and yet the item name, like every other field, resolves to the cell under the
  empty header, and an item is created from it; with the header \<open>' '\<close>, which differs
  from the empty header in white space only, the item name resolves to nothing.
\<close>

theorem empty_header_resolves:
  "getKey [('''', Str ''Ghost'')] ''item name'' = None \<and>
   getKey [('''', Str ''Ghost'')] ''itemname'' = None \<and>
   itemNameRaw [('''', Str ''Ghost'')] = Some (Str ''Ghost'') \<and>
   statusRaw [('''', Str ''Ghost'')] = Some (Str ''Ghost'') \<and>
   itemNameRaw [('' '', Str ''Ghost'')] = None \<and>
   POST noDates noFaults (Sheet [[('''', Str ''Ghost'')]]) \<lparr>items = [], nextId = 1\<rparr>
     = (Success ''Processed 1 items successfully'' 1,
        \<lparr>items = [\<lparr>sellingPrice = Fin 0, currentQuantity = Fin 0,
                    unitType = Some ''Ghost'', expiryDate = None, status = ''ghost'',
                    item_id = 1, itemName = ''Ghost'', soldQuantity = 0\<rparr>],
          nextId = 2\<rparr>)"
  by code_simp

end
